theory Spec2Isabelle
  imports Main "HOL-Library.Word"
begin

section \<open>Byte and string encodings used by the login flow\<close>

text \<open>
  The OAuth engine of the command-line client (\<^verbatim>\<open>oauth.ts\<close>) turns random bytes into text
  three ways: \<^verbatim>\<open>randomBytes(16).toString('hex')\<close> for the anti-forgery state,
  \<^verbatim>\<open>randomBytes(32).toString('base64url')\<close> for the PKCE verifier, and
  \<^verbatim>\<open>btoa(String.fromCharCode(...))\<close> followed by three \<^verbatim>\<open>replace\<close> calls for the PKCE
  challenge. Bytes are 8-bit words; a JavaScript string is a list of characters.
\<close>

type_synonym byte = "8 word"

definition hex_digits :: string where
  "hex_digits = ''0123456789abcdef''"

text \<open>\<^verbatim>\<open>Buffer.toString('hex')\<close>: two lower-case hexadecimal digits per byte.\<close>

definition hex :: "byte list \<Rightarrow> string" where
  "hex bs = concat (map (\<lambda>b. [hex_digits ! (unat b div 16), hex_digits ! (unat b mod 16)]) bs)"

definition std_alphabet :: string where
  "std_alphabet = ''ABCDEFGHIJKLMNOPQRSTUVWXYZabcdefghijklmnopqrstuvwxyz0123456789+/''"

definition url_alphabet :: string where
  "url_alphabet = ''ABCDEFGHIJKLMNOPQRSTUVWXYZabcdefghijklmnopqrstuvwxyz0123456789-_''"

text \<open>The 6-bit groups of a full block of three bytes, and of a final block of two or one.\<close>

definition sextets3 :: "byte \<Rightarrow> byte \<Rightarrow> byte \<Rightarrow> nat list" where
  "sextets3 a b c =
     [unat a div 4, (unat a mod 4) * 16 + unat b div 16,
      (unat b mod 16) * 4 + unat c div 64, unat c mod 64]"

definition sextets2 :: "byte \<Rightarrow> byte \<Rightarrow> nat list" where
  "sextets2 a b = [unat a div 4, (unat a mod 4) * 16 + unat b div 16, (unat b mod 16) * 4]"

definition sextets1 :: "byte \<Rightarrow> nat list" where
  "sextets1 a = [unat a div 4, (unat a mod 4) * 16]"

text \<open>
  Base64 (RFC 4648) over a 64-character alphabet \<open>al\<close>, with \<^verbatim>\<open>=\<close> padding of the last
  block when \<open>pad\<close> is set.
\<close>

fun base64 :: "string \<Rightarrow> bool \<Rightarrow> byte list \<Rightarrow> string" where
  "base64 al pad (a # b # c # bs) = map (\<lambda>i. al ! i) (sextets3 a b c) @ base64 al pad bs"
| "base64 al pad [a, b] = map (\<lambda>i. al ! i) (sextets2 a b) @ (if pad then ''='' else [])"
| "base64 al pad [a] = map (\<lambda>i. al ! i) (sextets1 a) @ (if pad then ''=='' else [])"
| "base64 al pad [] = []"

text \<open>
  \<^verbatim>\<open>Buffer.toString('base64url')\<close>: the URL-safe alphabet, no padding. This is also what
  the specification calls \<^verbatim>\<open>b64url_nopad\<close>.
\<close>

definition base64url :: "byte list \<Rightarrow> string" where
  "base64url bs = base64 url_alphabet False bs"

text \<open>
  \<^verbatim>\<open>String.fromCharCode(...bytes)\<close> builds the binary string whose character codes are the
  bytes, and \<^verbatim>\<open>btoa\<close> encodes such a string in standard, padded Base64.
\<close>

definition fromCharCode :: "byte list \<Rightarrow> string" where
  "fromCharCode bs = map (\<lambda>b. char_of (unat b)) bs"

definition btoa :: "string \<Rightarrow> string" where
  "btoa s = base64 std_alphabet True (map (\<lambda>c. of_nat (of_char c)) s)"

text \<open>\<^verbatim>\<open>s.replace(/x/g, 'y')\<close> and \<^verbatim>\<open>s.replace(/x/g, '')\<close> for a single character \<open>x\<close>.\<close>

definition replace_char :: "char \<Rightarrow> char \<Rightarrow> string \<Rightarrow> string" where
  "replace_char x y s = map (\<lambda>c. if c = x then y else c) s"

definition remove_char :: "char \<Rightarrow> string \<Rightarrow> string" where
  "remove_char x s = filter (\<lambda>c. c \<noteq> x) s"

text \<open>
  \<^verbatim>\<open>new TextEncoder().encode(s)\<close>: UTF-8. Characters here are code points below 256, so
  a character is one byte when it is ASCII and two bytes otherwise.
\<close>

definition utf8_char :: "char \<Rightarrow> byte list" where
  "utf8_char c =
     (let n = (of_char c :: nat)
      in if n < 128 then [of_nat n] else [of_nat (192 + n div 64), of_nat (128 + n mod 64)])"

definition encode :: "string \<Rightarrow> byte list" where
  "encode s = concat (map utf8_char s)"

section \<open>PKCE challenge\<close>

text \<open>
  \<^verbatim>\<open>generateCodeChallenge(verifier)\<close>. The digest \<^verbatim>\<open>crypto.subtle.digest('SHA-256', data)\<close>
  belongs to the platform, so it is a parameter \<open>sha256\<close> of the model; everything around
  it is the source's own code.
\<close>

definition generateCodeChallenge :: "(byte list \<Rightarrow> byte list) \<Rightarrow> string \<Rightarrow> string" where
  "generateCodeChallenge sha256 verifier =
     (let data = encode verifier;
          digest = sha256 data
      in remove_char CHR ''=''
           (replace_char CHR ''/'' CHR ''_''
             (replace_char CHR ''+'' CHR ''-'' (btoa (fromCharCode digest)))))"

section \<open>Data model\<close>

text \<open>
  The interfaces of \<^verbatim>\<open>types.ts\<close>. An optional field (\<^verbatim>\<open>clientSecret?: string\<close>) is an
  option. The provider's discovery document is untrusted JSON cast to
  \<^verbatim>\<open>OpenIDConfiguration\<close>, so each of its fields may be missing at run time whatever the
  interface says: they are options too, \<open>None\<close> standing for \<^verbatim>\<open>undefined\<close>. A body that
  parses to something other than an object has none of the fields (or makes the lookup
  throw inside the \<^verbatim>\<open>try\<close> block, with the same effect), so it is a document with every
  field missing.
\<close>

record OAuthOptions =
  clientId :: string
  clientSecret :: "string option"
  redirectUri :: string
  domain :: string

record TokenResponse =
  access_token :: string
  id_token :: "string option"
  token_type :: string
  expires_in :: int

record OpenIDConfiguration =
  issuer :: "string option"
  authorization_endpoint :: "string option"
  token_endpoint :: "string option"
  userinfo_endpoint :: "string option"
  jwks_uri :: "string option"
  registration_endpoint :: "string option"
  scopes_supported :: "string list option"
  response_types_supported :: "string list option"
  grant_types_supported :: "string list option"
  code_challenge_methods_supported :: "string list option"
  token_endpoint_auth_methods_supported :: "string list option"

text \<open>
  Errors: \<open>Error msg\<close> is the source's own \<^verbatim>\<open>new Error(msg)\<close>; the others are raised by the
  platform (\<^verbatim>\<open>fetch\<close> rejecting, \<^verbatim>\<open>response.json()\<close> rejecting, \<^verbatim>\<open>Bun.serve\<close> failing to
  bind, \<^verbatim>\<open>new URL\<close> rejecting its argument).
\<close>

datatype error = Error string | FetchFailed | JsonSyntaxError | ListenFailed | InvalidUrl

text \<open>
  An HTTP response as the source reads it: the status (\<^verbatim>\<open>response.ok\<close> is a status in
  200..299), the body as text, and the body parsed by \<^verbatim>\<open>response.json()\<close> (\<open>None\<close> when
  it does not parse). \<^verbatim>\<open>fetch\<close> either rejects or resolves to a response.
\<close>

record 'a response =
  status :: nat
  body_text :: string
  body_json :: "'a option"

datatype 'a fetch_result = Unreachable | Response "'a response"

definition ok :: "'a response \<Rightarrow> bool" where
  "ok r = (200 \<le> status r \<and> status r \<le> 299)"

text \<open>JavaScript truthiness of an optional string: \<^verbatim>\<open>!x\<close> holds for \<^verbatim>\<open>undefined\<close>, \<^verbatim>\<open>null\<close> and \<^verbatim>\<open>''\<close>.\<close>

definition falsy :: "string option \<Rightarrow> bool" where
  "falsy x = (case x of None \<Rightarrow> True | Some s \<Rightarrow> s = [])"

text \<open>
  An optional string used as a string: itself when it is there; inside a template literal
  \<^verbatim>\<open>`${undefined}`\<close> is \<^verbatim>\<open>undefined\<close>.
\<close>

definition template :: "string option \<Rightarrow> string" where
  "template x = (case x of None \<Rightarrow> ''undefined'' | Some s \<Rightarrow> s)"

text \<open>A number inside a template literal, in decimal.\<close>

function decimal :: "nat \<Rightarrow> string" where
  "decimal n = (if n < 10 then [hex_digits ! n] else decimal (n div 10) @ [hex_digits ! (n mod 10)])"
  by pat_completeness auto
termination
  by (relation "measure (\<lambda>n. n)") auto

text \<open>
  Query and form parameters: the insertion-ordered entries of a \<^verbatim>\<open>Record<string, string>\<close>
  or of a request's \<^verbatim>\<open>searchParams\<close>; \<^verbatim>\<open>searchParams.get(k)\<close> is the first value for \<open>k\<close>.
  \<^verbatim>\<open>new URLSearchParams(params).toString()\<close> only serialises the entries, so requests carry
  them as they are.
\<close>

type_synonym params = "(string \<times> string) list"

text \<open>What the flow does to the outside world, in order.\<close>

datatype event =
    HttpGet string
  | ConsoleWarn error
  | OpenBrowser string params
  | Listen string
  | Respond nat string
  | StopListener
  | Resolve string
  | Reject error
  | HttpPost string params

section \<open>Metadata resolver (\<^verbatim>\<open>openid-discovery.ts\<close>)\<close>

record cache_entry =
  config :: OpenIDConfiguration
  timestamp :: int

type_synonym configCache = "string \<rightharpoonup> cache_entry"

definition CACHE_DURATION :: int where
  "CACHE_DURATION = 24 * 60 * 60 * 1000"

definition requiredFields :: "string list" where
  "requiredFields = [''issuer'', ''authorization_endpoint'', ''token_endpoint'', ''userinfo_endpoint'']"

text \<open>\<^verbatim>\<open>config[field]\<close> for the field names the source looks up.\<close>

definition field :: "OpenIDConfiguration \<Rightarrow> string \<Rightarrow> string option" where
  "field c f =
     (if f = ''issuer'' then issuer c
      else if f = ''authorization_endpoint'' then authorization_endpoint c
      else if f = ''token_endpoint'' then token_endpoint c
      else if f = ''userinfo_endpoint'' then userinfo_endpoint c
      else if f = ''jwks_uri'' then jwks_uri c
      else if f = ''registration_endpoint'' then registration_endpoint c
      else None)"

text \<open>The \<^verbatim>\<open>for (const field of requiredFields)\<close> loop: the first falsy field throws.\<close>

fun check_required :: "string list \<Rightarrow> OpenIDConfiguration \<Rightarrow> error + unit" where
  "check_required [] c = Inr ()"
| "check_required (f # fs) c =
     (if falsy (field c f)
      then Inl (Error (''Missing required field in OpenID configuration: '' @ f))
      else check_required fs c)"

definition getDefaultClerkConfiguration :: "string \<Rightarrow> OpenIDConfiguration" where
  "getDefaultClerkConfiguration d =
     \<lparr> issuer = Some (''https://'' @ d),
       authorization_endpoint = Some (''https://'' @ d @ ''/oauth/authorize''),
       token_endpoint = Some (''https://'' @ d @ ''/oauth/token''),
       userinfo_endpoint = Some (''https://'' @ d @ ''/oauth/userinfo''),
       jwks_uri = Some (''https://'' @ d @ ''/.well-known/jwks.json''),
       registration_endpoint = Some (''https://'' @ d @ ''/oauth/register''),
       scopes_supported = Some [''openid'', ''profile'', ''email''],
       response_types_supported = Some [''code''],
       grant_types_supported = Some [''authorization_code''],
       code_challenge_methods_supported = Some [''S256''],
       token_endpoint_auth_methods_supported = Some [''client_secret_post'', ''none''] \<rparr>"

definition wellKnownUrl :: "string \<Rightarrow> string" where
  "wellKnownUrl d = ''https://'' @ d @ ''/.well-known/openid-configuration''"

text \<open>
  The body of the \<^verbatim>\<open>try\<close> block. \<open>net\<close> is the network as \<^verbatim>\<open>fetch\<close> sees it and \<open>now\<close> the
  reading of \<^verbatim>\<open>Date.now()\<close> taken when the entry is stored. A thrown error is \<open>Inl\<close>; on
  success the document and the updated cache are returned.
\<close>

definition discover_try ::
  "(string \<Rightarrow> OpenIDConfiguration fetch_result) \<Rightarrow> int \<Rightarrow> configCache \<Rightarrow> string
    \<Rightarrow> error + (OpenIDConfiguration \<times> configCache)" where
  "discover_try net now cache d =
     (case net (wellKnownUrl d) of
        Unreachable \<Rightarrow> Inl FetchFailed
      | Response r \<Rightarrow>
          if \<not> ok r
          then Inl (Error (''Failed to fetch OpenID configuration: '' @ decimal (status r)))
          else (case body_json r of
                  None \<Rightarrow> Inl JsonSyntaxError
                | Some cfg \<Rightarrow>
                    (case check_required requiredFields cfg of
                       Inl e \<Rightarrow> Inl e
                     | Inr _ \<Rightarrow> Inr (cfg, cache(d \<mapsto> \<lparr> config = cfg, timestamp = now \<rparr>)))))"

text \<open>
  \<^verbatim>\<open>discoverOpenIDConfiguration(domain)\<close>, with the module's \<^verbatim>\<open>configCache\<close> passed in and
  returned. \<open>now\<close> is the clock at the cache check and \<open>now'\<close> at the store. The result
  is a sum so that an error escaping the function would show as \<open>Inl\<close>.
\<close>

definition discoverOpenIDConfiguration ::
  "(string \<Rightarrow> OpenIDConfiguration fetch_result) \<Rightarrow> int \<Rightarrow> int \<Rightarrow> configCache \<Rightarrow> string
    \<Rightarrow> event list \<times> (error + OpenIDConfiguration) \<times> configCache" where
  "discoverOpenIDConfiguration net now now' cache d =
     (let miss =
            (case discover_try net now' cache d of
               Inr (cfg, cache') \<Rightarrow> ([HttpGet (wellKnownUrl d)], Inr cfg, cache')
             | Inl e \<Rightarrow>
                 ([HttpGet (wellKnownUrl d), ConsoleWarn e],
                  Inr (getDefaultClerkConfiguration d), cache))
      in case cache d of
           None \<Rightarrow> miss
         | Some cached \<Rightarrow>
             if now - timestamp cached < CACHE_DURATION then ([], Inr (config cached), cache)
             else miss)"

definition clearConfigCache :: "string option \<Rightarrow> configCache \<Rightarrow> configCache" where
  "clearConfigCache dopt cache =
     (case dopt of
        Some d \<Rightarrow> if d \<noteq> [] then cache(d := None) else Map.empty
      | None \<Rightarrow> Map.empty)"

text \<open>
  The cache is private to the module: every value it ever holds comes from the empty map
  by the two exported functions.
\<close>

inductive reachable :: "configCache \<Rightarrow> bool" where
  initial: "reachable Map.empty"
| discover: "reachable c \<Longrightarrow> reachable (snd (snd (discoverOpenIDConfiguration net now now' c d)))"
| clear: "reachable c \<Longrightarrow> reachable (clearConfigCache dopt c)"

text \<open>The four fields every consumer relies on are present and non-empty.\<close>

definition required_present :: "OpenIDConfiguration \<Rightarrow> bool" where
  "required_present c =
     (\<not> falsy (issuer c) \<and> \<not> falsy (authorization_endpoint c) \<and>
      \<not> falsy (token_endpoint c) \<and> \<not> falsy (userinfo_endpoint c))"

text \<open>The entry for a domain is younger than 24 hours at time \<open>now\<close>.\<close>

definition fresh :: "configCache \<Rightarrow> int \<Rightarrow> string \<Rightarrow> bool" where
  "fresh cache now d =
     (case cache d of None \<Rightarrow> False | Some cached \<Rightarrow> now - timestamp cached < CACHE_DURATION)"

fun fetches :: "event list \<Rightarrow> string list" where
  "fetches [] = []"
| "fetches (HttpGet u # es) = u # fetches es"
| "fetches (e # es) = fetches es"

section \<open>Token store (\<^verbatim>\<open>auth-storage.ts\<close>)\<close>

text \<open>
  \<^verbatim>\<open>StoredToken\<close> extends the token response with the domain and the instant of storing.
  \<^verbatim>\<open>stored_at\<close> is kept as the source uses it, \<^verbatim>\<open>new Date(token.stored_at).getTime()\<close>:
  milliseconds since the epoch. \<^verbatim>\<open>expires_in\<close> is in seconds.
\<close>

record StoredToken = TokenResponse +
  token_domain :: string
  stored_at :: int

text \<open>
  The token file \<^verbatim>\<open>tokens.json\<close>: missing, unreadable as a token (\<^verbatim>\<open>readFile\<close> or
  \<^verbatim>\<open>JSON.parse\<close> throws), or holding one stored token, with the fields and types of the
  interface. The file system itself is taken to work: writing a file stores it and
  unlinking a file removes it.
\<close>

datatype token_file = Missing | Corrupt | Holds StoredToken

definition saveToken :: "int \<Rightarrow> string \<Rightarrow> TokenResponse \<Rightarrow> token_file \<Rightarrow> token_file" where
  "saveToken now d token file =
     Holds \<lparr> access_token = access_token token, id_token = id_token token,
             token_type = token_type token, expires_in = expires_in token,
             token_domain = d, stored_at = now \<rparr>"

definition clearToken :: "token_file \<Rightarrow> token_file" where
  "clearToken file = Missing"

text \<open>\<^verbatim>\<open>loadToken()\<close> at clock reading \<open>now\<close> (milliseconds): the result and the file afterwards.\<close>

definition loadToken :: "int \<Rightarrow> token_file \<Rightarrow> StoredToken option \<times> token_file" where
  "loadToken now file =
     (case file of
        Missing \<Rightarrow> (None, file)
      | Corrupt \<Rightarrow> (None, file)
      | Holds token \<Rightarrow>
          (let storedAt = stored_at token;
               expiresIn = expires_in token * 1000
           in if now - storedAt > expiresIn then (None, clearToken file)
              else (Some token, file)))"

section \<open>The login flow (\<^verbatim>\<open>oauth.ts\<close>)\<close>

text \<open>
  Everything the flow takes from outside the repository: the random source behind
  \<^verbatim>\<open>randomBytes\<close>, the SHA-256 digest, the URL parser, the clock readings of the metadata
  resolver, the provider's answers, whether \<^verbatim>\<open>Bun.serve\<close> can bind a port, and the requests
  that reach the local listener, in arrival order, each with its arrival time in
  milliseconds after the listener started.
\<close>

record parsed_url =
  url_port :: string
  url_pathname :: string

record request =
  req_pathname :: string
  searchParams :: params

record platform =
  entropy :: "nat \<Rightarrow> byte"
  digest_sha256 :: "byte list \<Rightarrow> byte list"
  parse_url :: "string \<Rightarrow> parsed_url option"
  clock_check :: int
  clock_store :: int
  fetch_config :: "string \<Rightarrow> OpenIDConfiguration fetch_result"
  can_listen :: "string \<Rightarrow> bool"
  inbound :: "(nat \<times> request) list"
  fetch_token :: "string \<Rightarrow> params \<Rightarrow> TokenResponse fetch_result"

text \<open>\<^verbatim>\<open>randomBytes(n)\<close> takes the next \<open>n\<close> bytes of the source.\<close>

definition randomBytes :: "nat \<Rightarrow> (nat \<Rightarrow> byte) \<Rightarrow> byte list \<times> (nat \<Rightarrow> byte)" where
  "randomBytes n src = (map src [0..<n], \<lambda>i. src (i + n))"

definition buildAuthorizationUrl ::
  "OAuthOptions \<Rightarrow> string \<Rightarrow> string \<Rightarrow> string \<Rightarrow> bool \<Rightarrow> string \<times> params" where
  "buildAuthorizationUrl options authorizationEndpoint state codeChallenge usePKCE =
     (let params = [(''response_type'', ''code''),
                    (''client_id'', clientId options),
                    (''redirect_uri'', redirectUri options),
                    (''state'', state),
                    (''scope'', ''profile email'')];
          params' = (if usePKCE \<and> codeChallenge \<noteq> []
                     then params @ [(''code_challenge'', codeChallenge),
                                    (''code_challenge_method'', ''S256'')]
                     else params)
      in (authorizationEndpoint, params'))"

definition DEADLINE :: nat where
  "DEADLINE = 300000"

text \<open>
  The \<^verbatim>\<open>fetch(req)\<close> handler of the listener, for one request: what it does, in order. A
  request that matches no branch falls through to the 404 response.
\<close>

definition fetch_handler :: "parsed_url \<Rightarrow> string \<Rightarrow> request \<Rightarrow> event list" where
  "fetch_handler url expectedState req =
     (let notFound = [Respond 404 ''Not found'']
      in if req_pathname req = url_pathname url then
           (let code = map_of (searchParams req) ''code'';
                state = map_of (searchParams req) ''state'';
                err = map_of (searchParams req) ''error''
            in if \<not> falsy err then
                 [StopListener, Reject (Error (''Authorization error: '' @ template err)),
                  Respond 400 ''Authorization failed. You can close this window.'']
               else if state \<noteq> Some expectedState then
                 [StopListener, Reject (Error ''State mismatch - possible CSRF attack''),
                  Respond 400 ''State mismatch. You can close this window.'']
               else if \<not> falsy code then
                 [StopListener, Resolve (template code),
                  Respond 200 ''Authorization successful! You can close this window.'']
               else notFound)
         else notFound)"

text \<open>The first settlement of the promise among some events, if any.\<close>

fun settled :: "event list \<Rightarrow> (error + string) option" where
  "settled [] = None"
| "settled (Resolve c # es) = Some (Inr c)"
| "settled (Reject e # es) = Some (Inl e)"
| "settled (e # es) = settled es"

text \<open>
  The listener racing the timer of \<^verbatim>\<open>setTimeout(..., 300000)\<close>. Requests are handled in
  arrival order while the promise is pending; a request that arrives at or after the
  deadline finds the timer already fired, and so does the end of the requests. Once the
  promise is settled the listener has been stopped and takes no more requests; the timer,
  which the source never clears, later only repeats \<^verbatim>\<open>server.stop()\<close> and a \<^verbatim>\<open>reject\<close> that
  a settled promise ignores, and is left out.
\<close>

fun serve :: "parsed_url \<Rightarrow> string \<Rightarrow> (nat \<times> request) list \<Rightarrow> event list \<times> (error + string)" where
  "serve url expectedState [] =
     ([StopListener, Reject (Error ''Authorization timeout'')], Inl (Error ''Authorization timeout''))"
| "serve url expectedState ((t, req) # rest) =
     (if DEADLINE \<le> t then
        ([StopListener, Reject (Error ''Authorization timeout'')], Inl (Error ''Authorization timeout''))
      else (let evs = fetch_handler url expectedState req
            in case settled evs of
                 Some outcome \<Rightarrow> (evs, outcome)
               | None \<Rightarrow> (let (evs', outcome) = serve url expectedState rest
                           in (evs @ evs', outcome))))"

text \<open>
  \<^verbatim>\<open>waitForCallback(redirectUri, expectedState)\<close>. The \<open>Listen\<close> event carries the port as
  the string handed to \<^verbatim>\<open>Number\<close>.
\<close>

definition waitForCallback ::
  "platform \<Rightarrow> string \<Rightarrow> string \<Rightarrow> event list \<times> (error + string)" where
  "waitForCallback w redirectUri' expectedState =
     (case parse_url w redirectUri' of
        None \<Rightarrow> ([], Inl InvalidUrl)
      | Some url \<Rightarrow>
          (let port = (if url_port url = [] then ''3000'' else url_port url)
           in if \<not> can_listen w port then ([], Inl ListenFailed)
              else (let (evs, outcome) = serve url expectedState (inbound w)
                    in (Listen port # evs, outcome))))"

definition exchangeCodeForToken ::
  "platform \<Rightarrow> OAuthOptions \<Rightarrow> string \<Rightarrow> string \<Rightarrow> string
    \<Rightarrow> event list \<times> (error + TokenResponse)" where
  "exchangeCodeForToken w options tokenEndpoint code codeVerifier =
     (let params = [(''grant_type'', ''authorization_code''),
                    (''code'', code),
                    (''client_id'', clientId options),
                    (''redirect_uri'', redirectUri options)];
          params' = (if \<not> falsy (clientSecret options)
                     then params @ [(''client_secret'', template (clientSecret options))]
                     else if codeVerifier \<noteq> []
                     then params @ [(''code_verifier'', codeVerifier)]
                     else params)
      in ([HttpPost tokenEndpoint params'],
          (case fetch_token w tokenEndpoint params' of
             Unreachable \<Rightarrow> Inl FetchFailed
           | Response r \<Rightarrow>
               if \<not> ok r then Inl (Error (''Token exchange failed: '' @ body_text r))
               else (case body_json r of
                       None \<Rightarrow> Inl JsonSyntaxError
                     | Some tokens \<Rightarrow> Inr tokens))))"

text \<open>
  \<^verbatim>\<open>startOAuthFlow(options)\<close>: the events of the attempt, its result, and the metadata
  cache afterwards. A rejected \<^verbatim>\<open>await\<close> ends the flow with that error. The spinner's
  console output is left out, and \<^verbatim>\<open>open(authUrl)\<close> is taken to start the browser.
\<close>

definition startOAuthFlow ::
  "platform \<Rightarrow> OAuthOptions \<Rightarrow> configCache
    \<Rightarrow> event list \<times> (error + TokenResponse) \<times> configCache" where
  "startOAuthFlow w options cache =
     (let (ev1, discovered, cache') =
            discoverOpenIDConfiguration (fetch_config w) (clock_check w) (clock_store w)
              cache (domain options)
      in case discovered of
           Inl e \<Rightarrow> (ev1, Inl e, cache')
         | Inr cfg \<Rightarrow>
             (let (stateBytes, src) = randomBytes 16 (entropy w);
                  state = hex stateBytes;
                  usePKCE = falsy (clientSecret options);
                  codeVerifier = (if usePKCE then base64url (fst (randomBytes 32 src)) else []);
                  codeChallenge = (if usePKCE
                                   then generateCodeChallenge (digest_sha256 w) codeVerifier
                                   else []);
                  (endpoint, query) =
                    buildAuthorizationUrl options (template (authorization_endpoint cfg))
                      state codeChallenge usePKCE;
                  ev2 = [OpenBrowser endpoint query];
                  (ev3, callback) = waitForCallback w (redirectUri options) state
              in case callback of
                   Inl e \<Rightarrow> (ev1 @ ev2 @ ev3, Inl e, cache')
                 | Inr authCode \<Rightarrow>
                     (let (ev4, tokens) =
                            exchangeCodeForToken w options (template (token_endpoint cfg))
                              authCode codeVerifier
                      in (ev1 @ ev2 @ ev3 @ ev4, tokens, cache'))))"

text \<open>Whether the listener is bound after some events, starting from \<open>b\<close>.\<close>

fun listening :: "bool \<Rightarrow> event list \<Rightarrow> bool" where
  "listening b [] = b"
| "listening b (Listen p # es) = listening True es"
| "listening b (StopListener # es) = listening False es"
| "listening b (e # es) = listening b es"

text \<open>Every \<open>OpenBrowser\<close> among the events happens while the listener is bound.\<close>

fun opens_while_bound :: "bool \<Rightarrow> event list \<Rightarrow> bool" where
  "opens_while_bound b [] = True"
| "opens_while_bound b (OpenBrowser u q # es) = (b \<and> opens_while_bound b es)"
| "opens_while_bound b (Listen p # es) = opens_while_bound True es"
| "opens_while_bound b (StopListener # es) = opens_while_bound False es"
| "opens_while_bound b (e # es) = opens_while_bound b es"

text \<open>Every settlement of the promise among the events happens while the listener is not bound.\<close>

fun settles_unbound :: "bool \<Rightarrow> event list \<Rightarrow> bool" where
  "settles_unbound b [] = True"
| "settles_unbound b (Resolve c # es) = (\<not> b \<and> settles_unbound b es)"
| "settles_unbound b (Reject e # es) = (\<not> b \<and> settles_unbound b es)"
| "settles_unbound b (Listen p # es) = settles_unbound True es"
| "settles_unbound b (StopListener # es) = settles_unbound False es"
| "settles_unbound b (e # es) = settles_unbound b es"

text \<open>The form bodies posted to the token endpoint.\<close>

fun token_requests :: "event list \<Rightarrow> params list" where
  "token_requests [] = []"
| "token_requests (HttpPost u q # es) = q # token_requests es"
| "token_requests (e # es) = token_requests es"

section \<open>Auxiliary notions and example inputs\<close>

text \<open>
  The discovery attempt for a domain fails: a transport failure, a status outside 200..299,
  a body that is not JSON, or a document in which a required field is missing or empty.
\<close>

definition discovery_fails :: "(string \<Rightarrow> OpenIDConfiguration fetch_result) \<Rightarrow> string \<Rightarrow> bool" where
  "discovery_fails net d =
     (case net (wellKnownUrl d) of
        Unreachable \<Rightarrow> True
      | Response r \<Rightarrow>
          \<not> ok r \<or> (case body_json r of None \<Rightarrow> True | Some cfg \<Rightarrow> \<not> required_present cfg))"

definition cache_valid :: "configCache \<Rightarrow> bool" where
  "cache_valid c = (\<forall>d e. c d = Some e \<longrightarrow> required_present (config e))"

text \<open>A network on which every request fails, and a cache holding one entry stored at time 0.\<close>

definition offline :: "string \<Rightarrow> OpenIDConfiguration fetch_result" where
  "offline u = Unreachable"

definition example_cache :: configCache where
  "example_cache =
     [''acme.example'' \<mapsto>
        \<lparr> config = getDefaultClerkConfiguration ''idp.acme.example'', timestamp = 0 \<rparr>]"

definition example_token :: StoredToken where
  "example_token =
     \<lparr> access_token = ''tok'', id_token = None, token_type = ''Bearer'', expires_in = 3600,
       token_domain = ''acme.example'', stored_at = 0 \<rparr>"

text \<open>
  A request that leaves the receiver listening: it arrives before the deadline and its
  handling settles nothing (wrong path, or right path with matching state and no code).
\<close>

definition ignored :: "parsed_url \<Rightarrow> string \<Rightarrow> nat \<times> request \<Rightarrow> bool" where
  "ignored url expectedState tr =
     (fst tr < DEADLINE \<and> settled (fetch_handler url expectedState (snd tr)) = None)"

text \<open>
  What one attempt draws from the random source: 16 bytes for the state, then, without a
  client secret, 32 bytes for the verifier; and the verifier and challenge that result.
\<close>

definition flow_state :: "platform \<Rightarrow> string" where
  "flow_state w = hex (fst (randomBytes 16 (entropy w)))"

definition flow_verifier_bytes :: "platform \<Rightarrow> byte list" where
  "flow_verifier_bytes w = fst (randomBytes 32 (snd (randomBytes 16 (entropy w))))"

definition flow_verifier :: "platform \<Rightarrow> OAuthOptions \<Rightarrow> string" where
  "flow_verifier w options =
     (if falsy (clientSecret options) then base64url (flow_verifier_bytes w) else [])"

definition flow_challenge :: "platform \<Rightarrow> OAuthOptions \<Rightarrow> string" where
  "flow_challenge w options =
     (if falsy (clientSecret options)
      then generateCodeChallenge (digest_sha256 w) (flow_verifier w options) else [])"

text \<open>The browser and listener events among some events, and the queries the browser is sent to.\<close>

fun browser_and_listener :: "event list \<Rightarrow> event list" where
  "browser_and_listener [] = []"
| "browser_and_listener (OpenBrowser u q # es) = OpenBrowser u q # browser_and_listener es"
| "browser_and_listener (Listen p # es) = Listen p # browser_and_listener es"
| "browser_and_listener (StopListener # es) = StopListener # browser_and_listener es"
| "browser_and_listener (e # es) = browser_and_listener es"

fun auth_queries :: "event list \<Rightarrow> params list" where
  "auth_queries [] = []"
| "auth_queries (OpenBrowser u q # es) = q # auth_queries es"
| "auth_queries (e # es) = auth_queries es"

text \<open>The port the listener binds: \<^verbatim>\<open>url.port || '3000'\<close>.\<close>

definition listen_port :: "parsed_url \<Rightarrow> string" where
  "listen_port url = (if url_port url = [] then ''3000'' else url_port url)"

text \<open>
  An example attempt: discovery is offline, the browser comes back after 9 seconds with
  the issued state and a code, and the provider answers the exchange with a token. The
  digest of the example platform is a stand-in of the right length; no statement below
  depends on which function it is.
\<close>

definition example_url :: parsed_url where
  "example_url = \<lparr> url_port = ''3000'', url_pathname = ''/callback'' \<rparr>"

definition example_tokens :: TokenResponse where
  "example_tokens =
     \<lparr> access_token = ''tok'', id_token = None, token_type = ''Bearer'', expires_in = 3600 \<rparr>"

definition example_callback :: request where
  "example_callback =
     \<lparr> req_pathname = ''/callback'',
       searchParams = [(''code'', ''abc''), (''state'', ''030a11181f262d343b424950575e656c'')] \<rparr>"

definition example_platform :: platform where
  "example_platform =
     \<lparr> entropy = (\<lambda>i. of_nat (7 * i + 3)),
       digest_sha256 = (\<lambda>bs. take 32 (bs @ replicate 32 0)),
       parse_url = (\<lambda>s. if s = ''http://localhost:3000/callback'' then Some example_url else None),
       clock_check = 1000,
       clock_store = 1200,
       fetch_config = offline,
       can_listen = (\<lambda>p. True),
       inbound = [(5000, \<lparr> req_pathname = ''/favicon.ico'', searchParams = [] \<rparr>),
                  (9000, example_callback)],
       fetch_token = (\<lambda>u q. Response \<lparr> status = 200, body_text = [], body_json = Some example_tokens \<rparr>) \<rparr>"

definition example_options :: OAuthOptions where
  "example_options =
     \<lparr> clientId = ''cli_123'', clientSecret = Some ''s3cret'',
       redirectUri = ''http://localhost:3000/callback'', domain = ''acme.example'' \<rparr>"

definition example_public_options :: OAuthOptions where
  "example_public_options =
     \<lparr> clientId = ''cli_123'', clientSecret = None,
       redirectUri = ''http://localhost:3000/callback'', domain = ''acme.example'' \<rparr>"

text \<open>Callback requests: an empty error parameter, a provider denial, a forged state.\<close>

definition example_empty_error :: request where
  "example_empty_error =
     \<lparr> req_pathname = ''/callback'',
       searchParams = [(''error'', ''''), (''state'', ''030a11181f262d343b424950575e656c''),
                       (''code'', ''abc'')] \<rparr>"

definition example_denied :: request where
  "example_denied =
     \<lparr> req_pathname = ''/callback'', searchParams = [(''error'', ''access_denied'')] \<rparr>"

definition example_forged :: request where
  "example_forged =
     \<lparr> req_pathname = ''/callback'',
       searchParams = [(''code'', ''abc''), (''state'', ''030a11181f262d343b424950575e656d'')] \<rparr>"

text \<open>The example platform when the browser comes back only at the deadline.\<close>

definition example_late_platform :: platform where
  "example_late_platform =
     example_platform \<lparr> inbound := [(5000, \<lparr> req_pathname = ''/favicon.ico'', searchParams = [] \<rparr>),
                                   (300000, example_callback)] \<rparr>"

text \<open>The example platform when a forged callback, or a denial, comes first.\<close>

definition example_forged_platform :: platform where
  "example_forged_platform =
     example_platform \<lparr> inbound := [(5000, \<lparr> req_pathname = ''/favicon.ico'', searchParams = [] \<rparr>),
                                   (9000, example_forged), (12000, example_callback)] \<rparr>"

definition example_denied_platform :: platform where
  "example_denied_platform =
     example_platform \<lparr> inbound := [(5000, \<lparr> req_pathname = ''/favicon.ico'', searchParams = [] \<rparr>),
                                   (9000, example_denied)] \<rparr>"

text \<open>The three \<^verbatim>\<open>replace\<close> calls of \<^verbatim>\<open>generateCodeChallenge\<close>, taken together.\<close>

definition url_safe :: "string \<Rightarrow> string" where
  "url_safe s =
     remove_char CHR ''='' (replace_char CHR ''/'' CHR ''_'' (replace_char CHR ''+'' CHR ''-'' s))"

section \<open>Encoding lemmas\<close>

lemma unat_byte_less: "unat (b :: byte) < 256"
  using unsigned_less [of b, where ?'a = nat] by simp

lemma sextets3_bound: "i \<in> set (sextets3 a b c) \<Longrightarrow> i < 64"
  using unat_byte_less [of a] unat_byte_less [of b] unat_byte_less [of c]
  unfolding sextets3_def by auto

lemma sextets2_bound: "i \<in> set (sextets2 a b) \<Longrightarrow> i < 64"
  using unat_byte_less [of a] unat_byte_less [of b]
  unfolding sextets2_def by auto

lemma sextets1_bound: "i \<in> set (sextets1 a) \<Longrightarrow> i < 64"
  using unat_byte_less [of a]
  unfolding sextets1_def by auto


lemma byte_of_unat_mod: "of_nat (unat (b :: byte) mod 256) = b"
  using unat_byte_less [of b] by simp

lemma btoa_fromCharCode: "btoa (fromCharCode bs) = base64 std_alphabet True bs"
  by (simp add: btoa_def fromCharCode_def o_def of_char_of byte_of_unat_mod)

lemma url_safe_append: "url_safe (s @ t) = url_safe s @ url_safe t"
  by (simp add: url_safe_def replace_char_def remove_char_def)

lemma url_safe_padding: "url_safe ''='' = []" "url_safe ''=='' = []"
  by (simp_all add: url_safe_def replace_char_def remove_char_def)

lemma url_safe_nth:
  assumes "i < 64"
  shows "url_safe [std_alphabet ! i] = [url_alphabet ! i]"
proof -
  have len: "i < length std_alphabet" "i < length url_alphabet"
    using assms by (simp_all add: std_alphabet_def url_alphabet_def)
  have "map (\<lambda>c. if c = CHR ''/'' then CHR ''_'' else c)
          (map (\<lambda>c. if c = CHR ''+'' then CHR ''-'' else c) std_alphabet) = url_alphabet"
    by (simp add: std_alphabet_def url_alphabet_def)
  then have "map ((\<lambda>c. if c = CHR ''/'' then CHR ''_'' else c) \<circ>
          (\<lambda>c. if c = CHR ''+'' then CHR ''-'' else c)) std_alphabet ! i = url_alphabet ! i"
    by simp
  then have sw: "(if (if std_alphabet ! i = CHR ''+'' then CHR ''-'' else std_alphabet ! i) = CHR ''/''
              then CHR ''_''
              else (if std_alphabet ! i = CHR ''+'' then CHR ''-'' else std_alphabet ! i))
             = url_alphabet ! i"
    using len(1) by (simp only: nth_map o_def)
  have "url_alphabet ! i \<in> set url_alphabet"
    using len(2) by (rule nth_mem)
  moreover have "CHR ''='' \<notin> set url_alphabet"
    by (simp add: url_alphabet_def)
  ultimately have ne: "url_alphabet ! i \<noteq> CHR ''=''" by metis
  show ?thesis
    using sw ne by (simp add: url_safe_def replace_char_def remove_char_def)
qed

lemma url_safe_Cons: "url_safe (c # s) = url_safe [c] @ url_safe s"
  by (simp add: url_safe_def replace_char_def remove_char_def)

lemma url_safe_group:
  "(\<And>i. i \<in> set is \<Longrightarrow> i < 64) \<Longrightarrow>
     url_safe (map (\<lambda>i. std_alphabet ! i) is) = map (\<lambda>i. url_alphabet ! i) is"
proof (induction "is")
  case Nil
  show ?case by (simp add: url_safe_def replace_char_def remove_char_def)
next
  case (Cons i "is")
  have hd: "url_safe [std_alphabet ! i] = [url_alphabet ! i]"
    by (rule url_safe_nth) (simp add: Cons.prems)
  have tl: "url_safe (map (\<lambda>i. std_alphabet ! i) is) = map (\<lambda>i. url_alphabet ! i) is"
    by (rule Cons.IH) (simp add: Cons.prems)
  have "url_safe (map (\<lambda>i. std_alphabet ! i) (i # is))
          = url_safe [std_alphabet ! i] @ url_safe (map (\<lambda>i. std_alphabet ! i) is)"
    unfolding list.map by (rule url_safe_Cons)
  also have "\<dots> = map (\<lambda>i. url_alphabet ! i) (i # is)"
    unfolding hd tl by simp
  finally show ?case .
qed

lemma url_safe_base64: "url_safe (base64 std_alphabet True bs) = base64 url_alphabet False bs"
proof (induction std_alphabet True bs rule: base64.induct)
  case (1 a b c bs)
  then show ?case
    by (simp only: base64.simps url_safe_append url_safe_group [OF sextets3_bound])
next
  case (2 a b)
  show ?case
    by (simp only: base64.simps url_safe_append url_safe_group [OF sextets2_bound] url_safe_padding if_True if_False append_Nil2)
next
  case (3 a)
  show ?case
    by (simp only: base64.simps url_safe_append url_safe_group [OF sextets1_bound] url_safe_padding if_True if_False append_Nil2)
next
  case 4
  show ?case by (simp add: url_safe_def replace_char_def remove_char_def)
qed

lemma challenge_refines: "generateCodeChallenge sha256 verifier = base64url (sha256 (encode verifier))"
  using url_safe_base64 [of "sha256 (encode verifier)"]
  by (simp add: generateCodeChallenge_def base64url_def btoa_fromCharCode url_safe_def)

lemma base64_chars:
  "length al = 64 \<Longrightarrow> set (base64 al False bs) \<subseteq> set al"
proof (induction al False bs rule: base64.induct)
  case (1 al a b c bs)
  then show ?case using sextets3_bound [of _ a b c] by auto
next
  case (2 al a b)
  then show ?case using sextets2_bound [of _ a b] by auto
next
  case (3 al a)
  then show ?case using sextets1_bound [of _ a] by auto
next
  case (4 al)
  then show ?case by simp
qed

lemma base64_length:
  "length (base64 al False bs) = (4 * length bs + 2) div 3"
  by (induction al False bs rule: base64.induct) (simp_all add: sextets3_def sextets2_def sextets1_def)

lemma base64_nonempty: "bs \<noteq> [] \<Longrightarrow> base64 al pad bs \<noteq> []"
  by (induction al pad bs rule: base64.induct) (simp_all add: sextets3_def sextets2_def sextets1_def)

section \<open>Token store: expiry\<close>

text \<open>
  Claim C2, as stated: \<^verbatim>\<open>loadToken\<close> returns the record iff \<open>now < T + L\<close>, and clears the
  store when \<open>now \<ge> T + L\<close>. The source tests \<^verbatim>\<open>now - storedAt > expiresIn\<close>, so exactly at
  \<open>now = T + L\<close> the record is still returned and the file is kept: with \<open>T = 0\<close> and
  \<open>L = 3600\<close> seconds, loading at 3600000 ms returns the token.
\<close>

theorem loadToken_boundary_counterexample:
  "\<not> (3600000 < stored_at example_token + expires_in example_token * 1000) \<and>
   loadToken 3600000 (Holds example_token) = (Some example_token, Holds example_token)"
  by (simp add: loadToken_def example_token_def)

text \<open>
  Claim C2, amended: for a stored token with stored-at instant \<open>T\<close> (milliseconds) and
  lifetime \<open>L\<close> seconds, \<^verbatim>\<open>loadToken\<close> at time \<open>now\<close> returns the record, leaving the file
  as it is, iff \<open>now \<le> T + 1000 L\<close>; when \<open>now > T + 1000 L\<close> it clears the file and
  returns none. So a caller only ever receives the stored record, and only while
  \<open>now \<le> T + 1000 L\<close>.
\<close>

theorem loadToken_expiry:
  "(fst (loadToken now (Holds token)) = Some token
      \<longleftrightarrow> now \<le> stored_at token + expires_in token * 1000) \<and>
   (now \<le> stored_at token + expires_in token * 1000
      \<longrightarrow> loadToken now (Holds token) = (Some token, Holds token)) \<and>
   (now > stored_at token + expires_in token * 1000
      \<longrightarrow> loadToken now (Holds token) = (None, Missing)) \<and>
   (\<forall>r. fst (loadToken now (Holds token)) = Some r
      \<longrightarrow> r = token \<and> now \<le> stored_at token + expires_in token * 1000)"
  by (auto simp: loadToken_def clearToken_def Let_def)

theorem loadToken_expiry_witness:
  "saveToken 0 ''acme.example'' example_tokens Missing = Holds example_token \<and>
   3601000 > stored_at example_token + expires_in example_token * 1000 \<and>
   loadToken 3601000 (Holds example_token) = (None, Missing) \<and>
   3599000 \<le> stored_at example_token + expires_in example_token * 1000 \<and>
   loadToken 3599000 (Holds example_token) = (Some example_token, Holds example_token)"
  using loadToken_expiry [of 3601000 example_token] loadToken_expiry [of 3599000 example_token]
  by (simp add: example_token_def example_tokens_def saveToken_def)

section \<open>Metadata resolver: totality, caching, fallback\<close>

lemma check_required_iff:
  "(\<exists>e. check_required requiredFields cfg = Inl e) \<longleftrightarrow> \<not> required_present cfg"
  by (simp add: requiredFields_def required_present_def field_def)

lemma default_required_present: "required_present (getDefaultClerkConfiguration d)"
  by (simp add: required_present_def getDefaultClerkConfiguration_def falsy_def)

lemma discover_try_Inr:
  "discover_try net t cache d = Inr (cfg, cache') \<Longrightarrow>
     required_present cfg \<and> cache' = cache(d \<mapsto> \<lparr> config = cfg, timestamp = t \<rparr>) \<and> \<not> discovery_fails net d"
  using check_required_iff [of cfg]
  by (auto simp: discover_try_def discovery_fails_def split: fetch_result.splits if_splits option.splits sum.splits)

lemma discover_miss:
  "\<not> fresh cache now d \<Longrightarrow>
   discoverOpenIDConfiguration net now now' cache d =
     (case discover_try net now' cache d of
        Inr (cfg, cache') \<Rightarrow> ([HttpGet (wellKnownUrl d)], Inr cfg, cache')
      | Inl e \<Rightarrow> ([HttpGet (wellKnownUrl d), ConsoleWarn e], Inr (getDefaultClerkConfiguration d), cache))"
  by (simp add: discoverOpenIDConfiguration_def fresh_def split: option.splits)

lemma discover_hit:
  "fresh cache now d \<Longrightarrow>
   \<exists>cached. cache d = Some cached \<and>
     discoverOpenIDConfiguration net now now' cache d = ([], Inr (config cached), cache)"
  by (auto simp: discoverOpenIDConfiguration_def fresh_def split: option.splits)

lemma discover_keeps_valid:
  assumes "cache_valid c"
  shows "cache_valid (snd (snd (discoverOpenIDConfiguration net now now' c d)))"
proof (cases "fresh c now d")
  case True
  then show ?thesis using assms discover_hit [OF True, of net now'] by auto
next
  case False
  show ?thesis
  proof (cases "discover_try net now' c d")
    case (Inl e)
    then show ?thesis using assms by (simp add: discover_miss [OF False])
  next
    case (Inr p)
    obtain cfg c' where p: "p = (cfg, c')" by (cases p)
    from discover_try_Inr [OF Inr [unfolded p]] assms show ?thesis
      by (simp add: discover_miss [OF False] Inr p cache_valid_def)
  qed
qed

lemma reachable_valid: "reachable c \<Longrightarrow> cache_valid c"
proof (induction rule: reachable.induct)
  case initial
  then show ?case by (simp add: cache_valid_def)
next
  case (discover c net now now' d)
  from discover.IH show ?case by (rule discover_keeps_valid)
next
  case (clear c dopt)
  then show ?case by (auto simp: cache_valid_def clearConfigCache_def split: option.splits if_splits)
qed


text \<open>
  Claim C3: for every domain and every state the module's cache can be in,
  \<^verbatim>\<open>discoverOpenIDConfiguration\<close> returns a value (no error escapes it) whose four required
  fields are present and non-empty. When a fetch is made and it fails (transport failure,
  status outside 200..299, body that does not parse, required field missing) the value is
  the fallback built from the conventional paths under \<^verbatim>\<open>https://{D}\<close>, whose
  authorization endpoint is \<^verbatim>\<open>https://{D}/oauth/authorize\<close>.
\<close>

theorem discover_never_throws:
  assumes "reachable cache"
  shows "(\<exists>cfg. fst (snd (discoverOpenIDConfiguration net now now' cache d)) = Inr cfg \<and>
             required_present cfg) \<and>
         (\<not> fresh cache now d \<and> discovery_fails net d \<longrightarrow>
            fst (snd (discoverOpenIDConfiguration net now now' cache d))
              = Inr (getDefaultClerkConfiguration d)) \<and>
         authorization_endpoint (getDefaultClerkConfiguration d)
           = Some (''https://'' @ d @ ''/oauth/authorize'')"
proof (intro conjI impI)
  show "\<exists>cfg. fst (snd (discoverOpenIDConfiguration net now now' cache d)) = Inr cfg \<and> required_present cfg"
  proof (cases "fresh cache now d")
    case True
    from discover_hit [OF True, of net now'] reachable_valid [OF assms]
    show ?thesis by (auto simp: cache_valid_def)
  next
    case False
    show ?thesis
    proof (cases "discover_try net now' cache d")
      case (Inl e)
      then show ?thesis by (simp add: discover_miss [OF False] default_required_present)
    next
      case (Inr p)
      obtain cfg c' where p: "p = (cfg, c')" by (cases p)
      from discover_try_Inr [OF Inr [unfolded p]] show ?thesis
        by (simp add: discover_miss [OF False] Inr p)
    qed
  qed
next
  assume a: "\<not> fresh cache now d \<and> discovery_fails net d"
  then have "\<exists>e. discover_try net now' cache d = Inl e"
    using discover_try_Inr [of net now' cache d]
    by (cases "discover_try net now' cache d") auto
  then show "fst (snd (discoverOpenIDConfiguration net now now' cache d)) = Inr (getDefaultClerkConfiguration d)"
    using a by (auto simp: discover_miss)
next
  show "authorization_endpoint (getDefaultClerkConfiguration d) = Some (''https://'' @ d @ ''/oauth/authorize'')"
    by (simp add: getDefaultClerkConfiguration_def)
qed

theorem discover_never_throws_witness:
  "reachable Map.empty \<and> \<not> fresh Map.empty 1000 ''acme.example'' \<and>
   discovery_fails offline ''acme.example'' \<and>
   fst (snd (discoverOpenIDConfiguration offline 1000 1200 Map.empty ''acme.example''))
     = Inr (getDefaultClerkConfiguration ''acme.example'') \<and>
   required_present (getDefaultClerkConfiguration ''acme.example'') \<and>
   authorization_endpoint (getDefaultClerkConfiguration ''acme.example'')
     = Some ''https://acme.example/oauth/authorize''"
  using discover_never_throws [OF reachable.initial, of offline 1000 1200 "''acme.example''"]
    reachable.initial default_required_present
  by (simp add: fresh_def discovery_fails_def offline_def)


text \<open>
  Claim C9: when the cache holds an entry for the domain younger than 24 hours, that
  entry's value is returned, the cache is unchanged and no network request is made; when
  the entry is absent or 24 hours old or older, exactly one request is made, for the
  discovery document.
\<close>

theorem discover_cache_hit_or_one_fetch:
  "(fresh cache now d \<longrightarrow>
      (\<exists>cached. cache d = Some cached \<and>
         discoverOpenIDConfiguration net now now' cache d = ([], Inr (config cached), cache)) \<and>
      fetches (fst (discoverOpenIDConfiguration net now now' cache d)) = []) \<and>
   (\<not> fresh cache now d \<longrightarrow>
      fetches (fst (discoverOpenIDConfiguration net now now' cache d)) = [wellKnownUrl d])"
proof (intro conjI impI)
  assume f: "fresh cache now d"
  from discover_hit [OF f, of net now']
  show "\<exists>cached. cache d = Some cached \<and>
         discoverOpenIDConfiguration net now now' cache d = ([], Inr (config cached), cache)" .
  then show "fetches (fst (discoverOpenIDConfiguration net now now' cache d)) = []" by auto
next
  assume "\<not> fresh cache now d"
  then show "fetches (fst (discoverOpenIDConfiguration net now now' cache d)) = [wellKnownUrl d]"
    by (simp add: discover_miss split: sum.splits prod.splits)
qed


theorem discover_cache_hit_or_one_fetch_witness:
  "fresh example_cache 86399999 ''acme.example'' \<and>
   discoverOpenIDConfiguration offline 86399999 86399999 example_cache ''acme.example''
     = ([], Inr (getDefaultClerkConfiguration ''idp.acme.example''), example_cache) \<and>
   \<not> fresh example_cache 86400000 ''acme.example'' \<and>
   fetches (fst (discoverOpenIDConfiguration offline 86400000 86400000 example_cache
                   ''acme.example''))
     = [''https://acme.example/.well-known/openid-configuration'']"
  using discover_cache_hit_or_one_fetch
          [of example_cache 86399999 "''acme.example''" offline 86399999]
        discover_cache_hit_or_one_fetch
          [of example_cache 86400000 "''acme.example''" offline 86400000]
  by (simp add: fresh_def example_cache_def CACHE_DURATION_def wellKnownUrl_def)

text \<open>
  Claim C10: when no fresh entry exists and discovery fails, the fallback is returned and
  the cache is left exactly as it was; so the next call for the domain, at any later
  time (even at once) and whatever the network then does, fetches the discovery document
  again.
\<close>

theorem fallback_not_cached:
  assumes "\<not> fresh cache now d" and "discovery_fails net d"
  shows "snd (discoverOpenIDConfiguration net now now' cache d)
           = (Inr (getDefaultClerkConfiguration d), cache) \<and>
         (\<forall>net2 t t'. now \<le> t \<longrightarrow>
            fetches (fst (discoverOpenIDConfiguration net2 t t'
                       (snd (snd (discoverOpenIDConfiguration net now now' cache d))) d))
              = [wellKnownUrl d])"
proof -
  from assms(2) obtain e where e: "discover_try net now' cache d = Inl e"
    using discover_try_Inr [of net now' cache d]
    by (cases "discover_try net now' cache d") auto
  then have r: "discoverOpenIDConfiguration net now now' cache d
           = ([HttpGet (wellKnownUrl d), ConsoleWarn e], Inr (getDefaultClerkConfiguration d), cache)"
    using assms(1) by (simp add: discover_miss)
  have "\<not> fresh cache t d" if "now \<le> t" for t
    using assms(1) that by (auto simp: fresh_def split: option.splits)
  then show ?thesis
    using r by (simp add: discover_miss split: sum.splits prod.splits)
qed

theorem fallback_not_cached_witness:
  "\<not> fresh Map.empty 1000 ''acme.example'' \<and> discovery_fails offline ''acme.example'' \<and>
   snd (discoverOpenIDConfiguration offline 1000 1200 Map.empty ''acme.example'')
     = (Inr (getDefaultClerkConfiguration ''acme.example''), Map.empty) \<and>
   fetches (fst (discoverOpenIDConfiguration offline 1000 1000
                   (snd (snd (discoverOpenIDConfiguration offline 1000 1200 Map.empty
                                ''acme.example'')))
                   ''acme.example''))
     = [wellKnownUrl ''acme.example'']"
proof -
  have a: "\<not> fresh Map.empty 1000 ''acme.example''"
    by (simp add: fresh_def)
  have b: "discovery_fails offline ''acme.example''"
    by (simp add: discovery_fails_def offline_def)
  from fallback_not_cached [OF a b, of 1200] a b show ?thesis
    by blast
qed

section \<open>The callback receiver\<close>

lemma handler_error:
  assumes "req_pathname req = url_pathname url"
    and "map_of (searchParams req) ''error'' = Some e" and "e \<noteq> []"
  shows "fetch_handler url expectedState req =
           [StopListener, Reject (Error (''Authorization error: '' @ e)),
            Respond 400 ''Authorization failed. You can close this window.'']"
  using assms by (simp add: fetch_handler_def falsy_def template_def)

lemma handler_mismatch:
  assumes "req_pathname req = url_pathname url"
    and "falsy (map_of (searchParams req) ''error'')"
    and "map_of (searchParams req) ''state'' \<noteq> Some expectedState"
  shows "fetch_handler url expectedState req =
           [StopListener, Reject (Error ''State mismatch - possible CSRF attack''),
            Respond 400 ''State mismatch. You can close this window.'']"
  using assms by (simp add: fetch_handler_def)

lemma handler_cases:
  "fetch_handler url st req = [Respond 404 ''Not found''] \<or>
   (\<exists>c. fetch_handler url st req = [StopListener, Resolve c,
            Respond 200 ''Authorization successful! You can close this window.'']) \<or>
   (\<exists>e b. fetch_handler url st req = [StopListener, Reject e, Respond 400 b])"
  by (simp add: fetch_handler_def Let_def)

lemma serve_skip:
  assumes "list_all (ignored url st) pre"
  shows "serve url st (pre @ reqs) =
           (concat (map (\<lambda>tr. fetch_handler url st (snd tr)) pre) @ fst (serve url st reqs),
            snd (serve url st reqs))"
  using assms
proof (induction pre)
  case Nil
  show ?case by simp
next
  case (Cons tr pre)
  obtain t r where tr: "tr = (t, r)" by (cases tr)
  from Cons.prems have hd: "ignored url st (t, r)" and tl: "list_all (ignored url st) pre"
    by (simp_all add: tr)
  from hd have "t < DEADLINE" "settled (fetch_handler url st r) = None"
    by (simp_all add: ignored_def)
  then show ?case
    using Cons.IH [OF tl] by (simp add: tr split_beta)
qed

lemma serve_timeout:
  assumes "\<And>t r. (t, r) \<in> set reqs \<Longrightarrow> t < DEADLINE \<Longrightarrow> settled (fetch_handler url st r) = None"
  shows "snd (serve url st reqs) = Inl (Error ''Authorization timeout'')"
  using assms
proof (induction reqs)
  case Nil
  show ?case by simp
next
  case (Cons tr reqs)
  obtain t r where tr: "tr = (t, r)" by (cases tr)
  show ?case
  proof (cases "DEADLINE \<le> t")
    case True
    then show ?thesis by (simp add: tr)
  next
    case False
    then have "settled (fetch_handler url st r) = None"
      using Cons.prems [of t r] by (simp add: tr)
    moreover have "snd (serve url st reqs) = Inl (Error ''Authorization timeout'')"
      using Cons.prems by (intro Cons.IH) auto
    ultimately show ?thesis using False by (simp add: tr split_beta)
  qed
qed

lemma listening_append: "listening b (xs @ ys) = listening (listening b xs) ys"
  by (induction b xs rule: listening.induct) simp_all

lemma settles_unbound_append:
  "settles_unbound b (xs @ ys) = (settles_unbound b xs \<and> settles_unbound (listening b xs) ys)"
  by (induction b xs rule: settles_unbound.induct) simp_all

lemma opens_while_bound_append:
  "opens_while_bound b (xs @ ys) = (opens_while_bound b xs \<and> opens_while_bound (listening b xs) ys)"
  by (induction b xs rule: opens_while_bound.induct) simp_all

lemma token_requests_append: "token_requests (xs @ ys) = token_requests xs @ token_requests ys"
  by (induction xs rule: token_requests.induct) simp_all

lemma settled_append:
  "settled (xs @ ys) = (case settled xs of None \<Rightarrow> settled ys | Some outcome \<Rightarrow> Some outcome)"
  by (induction xs rule: settled.induct) simp_all

lemma handler_effects:
  "settles_unbound b (fetch_handler url st req) \<and>
   (settled (fetch_handler url st req) = None \<longrightarrow> listening b (fetch_handler url st req) = b) \<and>
   (settled (fetch_handler url st req) \<noteq> None \<longrightarrow> \<not> listening b (fetch_handler url st req)) \<and>
   token_requests (fetch_handler url st req) = []"
  using handler_cases [of url st req] by auto

lemma serve_effects:
  "settles_unbound b (fst (serve url st reqs)) \<and> \<not> listening b (fst (serve url st reqs)) \<and>
   settled (fst (serve url st reqs)) = Some (snd (serve url st reqs)) \<and>
   token_requests (fst (serve url st reqs)) = []"
proof (induction reqs)
  case Nil
  show ?case by simp
next
  case (Cons tr reqs)
  obtain t r where tr: "tr = (t, r)" by (cases tr)
  show ?case
  proof (cases "DEADLINE \<le> t")
    case True
    then show ?thesis by (simp add: tr)
  next
    case False
    show ?thesis
    proof (cases "settled (fetch_handler url st r)")
      case None
      then show ?thesis
        using False Cons.IH handler_effects [of b url st r]
        by (simp add: tr settles_unbound_append listening_append settled_append
              token_requests_append split_beta)
    next
      case (Some outcome)
      then show ?thesis
        using False handler_effects [of b url st r] by (simp add: tr)
    qed
  qed
qed

section \<open>The shape of a login attempt\<close>

lemma discover_shape:
  "\<exists>ev cfg c'. discoverOpenIDConfiguration net now now' c d = (ev, Inr cfg, c') \<and>
     (ev = [] \<or> ev = [HttpGet (wellKnownUrl d)] \<or> (\<exists>e. ev = [HttpGet (wellKnownUrl d), ConsoleWarn e]))"
proof (cases "fresh c now d")
  case True
  from discover_hit [OF True, of net now'] show ?thesis by auto
next
  case False
  show ?thesis
    by (cases "discover_try net now' c d") (auto simp: discover_miss [OF False])
qed

lemma discover_effects:
  assumes "discoverOpenIDConfiguration net now now' c d = (ev, r, c')"
  shows "listening b ev = b" "token_requests ev = []" "auth_queries ev = []"
    "browser_and_listener ev = []" "opens_while_bound b ev" "settles_unbound b ev"
  using discover_shape [of net now now' c d] assms by auto

lemma flow_shape:
  assumes "discoverOpenIDConfiguration (fetch_config w) (clock_check w) (clock_store w) c
             (domain options) = (ev1, Inr cfg, c')"
  shows "startOAuthFlow w options c =
     (let opened = OpenBrowser (template (authorization_endpoint cfg))
                     (snd (buildAuthorizationUrl options (template (authorization_endpoint cfg))
                             (flow_state w) (flow_challenge w options)
                             (falsy (clientSecret options))));
          waited = waitForCallback w (redirectUri options) (flow_state w)
      in case snd waited of
           Inl e \<Rightarrow> (ev1 @ opened # fst waited, Inl e, c')
         | Inr authCode \<Rightarrow>
             (let exchanged = exchangeCodeForToken w options (template (token_endpoint cfg))
                                authCode (flow_verifier w options)
              in (ev1 @ opened # fst waited @ fst exchanged, snd exchanged, c')))"
  using assms
  by (simp add: startOAuthFlow_def flow_state_def flow_challenge_def flow_verifier_def
        flow_verifier_bytes_def buildAuthorizationUrl_def Let_def split_beta
      split: sum.splits)

lemma auth_queries_append: "auth_queries (xs @ ys) = auth_queries xs @ auth_queries ys"
  by (induction xs rule: auth_queries.induct) simp_all

lemma browser_and_listener_append:
  "browser_and_listener (xs @ ys) = browser_and_listener xs @ browser_and_listener ys"
  by (induction xs rule: browser_and_listener.induct) simp_all

lemma handler_projection:
  "auth_queries (fetch_handler url st req) = [] \<and>
   (settled (fetch_handler url st req) = None \<longrightarrow>
      browser_and_listener (fetch_handler url st req) = []) \<and>
   (settled (fetch_handler url st req) \<noteq> None \<longrightarrow>
      browser_and_listener (fetch_handler url st req) = [StopListener])"
  using handler_cases [of url st req] by auto

lemma serve_projection:
  "auth_queries (fst (serve url st reqs)) = [] \<and>
   browser_and_listener (fst (serve url st reqs)) = [StopListener]"
proof (induction reqs)
  case Nil
  show ?case by simp
next
  case (Cons tr reqs)
  obtain t r where tr: "tr = (t, r)" by (cases tr)
  show ?case
  proof (cases "DEADLINE \<le> t")
    case True
    then show ?thesis by (simp add: tr)
  next
    case False
    show ?thesis
    proof (cases "settled (fetch_handler url st r)")
      case None
      then show ?thesis
        using False Cons.IH handler_projection [of url st r]
        by (simp add: tr auth_queries_append browser_and_listener_append split_beta)
    next
      case (Some outcome)
      then show ?thesis
        using False handler_projection [of url st r] by (simp add: tr)
    qed
  qed
qed

lemma example_state: "flow_state example_platform = ''030a11181f262d343b424950575e656c''"
  by (simp add: flow_state_def example_platform_def hex_def randomBytes_def hex_digits_def upt_rec)


lemma wait_shape:
  "waitForCallback w uri st =
     (case parse_url w uri of
        None \<Rightarrow> ([], Inl InvalidUrl)
      | Some url \<Rightarrow>
          if can_listen w (listen_port url)
          then (Listen (listen_port url) # fst (serve url st (inbound w)),
                snd (serve url st (inbound w)))
          else ([], Inl ListenFailed))"
  by (simp add: waitForCallback_def listen_port_def Let_def split_beta split: option.splits)

lemma wait_effects:
  "settles_unbound False (fst (waitForCallback w uri st)) \<and>
   \<not> listening False (fst (waitForCallback w uri st)) \<and>
   token_requests (fst (waitForCallback w uri st)) = [] \<and>
   auth_queries (fst (waitForCallback w uri st)) = [] \<and>
   browser_and_listener (fst (waitForCallback w uri st)) =
     (case parse_url w uri of
        None \<Rightarrow> []
      | Some url \<Rightarrow>
          if can_listen w (listen_port url) then [Listen (listen_port url), StopListener] else [])"
  using serve_effects [of True _ st "inbound w"] serve_projection [of _ st "inbound w"]
  by (simp add: wait_shape split: option.splits)

lemma exchange_effects:
  "\<not> listening False (fst (exchangeCodeForToken w options ep code v)) \<and>
   settles_unbound False (fst (exchangeCodeForToken w options ep code v)) \<and>
   auth_queries (fst (exchangeCodeForToken w options ep code v)) = [] \<and>
   browser_and_listener (fst (exchangeCodeForToken w options ep code v)) = []"
  by (simp add: exchangeCodeForToken_def Let_def)

lemma flow_effects:
  "\<not> listening False (fst (startOAuthFlow w options c)) \<and>
   settles_unbound False (fst (startOAuthFlow w options c)) \<and>
   (\<exists>ep q. browser_and_listener (fst (startOAuthFlow w options c)) =
      OpenBrowser ep q #
        (case parse_url w (redirectUri options) of
           None \<Rightarrow> []
         | Some url \<Rightarrow>
             if can_listen w (listen_port url) then [Listen (listen_port url), StopListener]
             else []))"
proof -
  obtain ev1 cfg c' where d: "discoverOpenIDConfiguration (fetch_config w) (clock_check w)
      (clock_store w) c (domain options) = (ev1, Inr cfg, c')"
    using discover_shape by blast
  note de = discover_effects [OF d]
  note we = wait_effects [of w "redirectUri options" "flow_state w"]
  show ?thesis
  proof (cases "snd (waitForCallback w (redirectUri options) (flow_state w))")
    case (Inl e)
    then show ?thesis
      using de we
      by (simp add: flow_shape [OF d] Let_def listening_append settles_unbound_append
            browser_and_listener_append)
  next
    case (Inr authCode)
    then show ?thesis
      using de we
        exchange_effects [of w options "template (token_endpoint cfg)" authCode "flow_verifier w options"]
      by (simp add: flow_shape [OF d] Let_def listening_append settles_unbound_append
            browser_and_listener_append)
  qed
qed


lemma example_discovery:
  "discoverOpenIDConfiguration (fetch_config example_platform) (clock_check example_platform)
     (clock_store example_platform) Map.empty (domain example_options)
   = ([HttpGet ''https://acme.example/.well-known/openid-configuration'', ConsoleWarn FetchFailed],
      Inr (getDefaultClerkConfiguration ''acme.example''), Map.empty)"
  by (simp add: discoverOpenIDConfiguration_def discover_try_def example_platform_def
        example_options_def offline_def wellKnownUrl_def)

lemma example_wait:
  "waitForCallback example_platform ''http://localhost:3000/callback''
     ''030a11181f262d343b424950575e656c''
   = ([Listen ''3000'', Respond 404 ''Not found'', StopListener, Resolve ''abc'',
       Respond 200 ''Authorization successful! You can close this window.''], Inr ''abc'')"
  by (simp add: wait_shape example_platform_def example_url_def listen_port_def DEADLINE_def
        fetch_handler_def example_callback_def falsy_def template_def)

lemma example_trace:
  "fst (startOAuthFlow example_platform example_options Map.empty) =
     [HttpGet ''https://acme.example/.well-known/openid-configuration'',
      ConsoleWarn FetchFailed,
      OpenBrowser ''https://acme.example/oauth/authorize''
        [(''response_type'', ''code''), (''client_id'', ''cli_123''),
         (''redirect_uri'', ''http://localhost:3000/callback''),
         (''state'', ''030a11181f262d343b424950575e656c''),
         (''scope'', ''profile email'')],
      Listen ''3000'',
      Respond 404 ''Not found'',
      StopListener,
      Resolve ''abc'',
      Respond 200 ''Authorization successful! You can close this window.'',
      HttpPost ''https://acme.example/oauth/token''
        [(''grant_type'', ''authorization_code''), (''code'', ''abc''),
         (''client_id'', ''cli_123''),
         (''redirect_uri'', ''http://localhost:3000/callback''),
         (''client_secret'', ''s3cret'')]]"
proof -
  have opts: "redirectUri example_options = ''http://localhost:3000/callback''"
    "clientSecret example_options = Some ''s3cret''" "clientId example_options = ''cli_123''"
    by (simp_all add: example_options_def)
  show ?thesis
    by (simp add: flow_shape [OF example_discovery] example_state opts example_wait
          buildAuthorizationUrl_def exchangeCodeForToken_def falsy_def template_def
          getDefaultClerkConfiguration_def Let_def)
qed

section \<open>Order of browser and listener\<close>

text \<open>
  Claim C1, as stated: the listener is bound before the browser is opened, and the browser
  is never opened while the listener is not bound. \<^verbatim>\<open>startOAuthFlow\<close> awaits \<^verbatim>\<open>open(authUrl)\<close>
  first and only then calls \<^verbatim>\<open>waitForCallback\<close>, which is where \<^verbatim>\<open>Bun.serve\<close> binds the
  port. In the example attempt the browser is opened while no listener is bound.
\<close>

theorem browser_opened_unbound_counterexample:
  "\<not> opens_while_bound False (fst (startOAuthFlow example_platform example_options Map.empty))"
  by (simp add: example_trace)

text \<open>
  Claim C1, amended: in every login attempt the browser is instructed to navigate first,
  exactly once, while no listener is bound; the listener is bound only afterwards, by
  \<^verbatim>\<open>waitForCallback\<close>, on the explicit port of the redirect URI (3000 when it has none), and
  it is stopped again before the attempt ends. When the redirect URI does not parse or the
  port cannot be bound, no listener is bound at all.
\<close>

theorem browser_opened_then_listener_bound:
  "(\<exists>ep q. browser_and_listener (fst (startOAuthFlow w options c)) =
      OpenBrowser ep q #
        (case parse_url w (redirectUri options) of
           None \<Rightarrow> []
         | Some url \<Rightarrow>
             if can_listen w (listen_port url) then [Listen (listen_port url), StopListener]
             else [])) \<and>
   listen_port url = (if url_port url = [] then ''3000'' else url_port url)"
  using flow_effects [of w options c] by (simp add: listen_port_def)

theorem browser_opened_then_listener_bound_witness:
  "\<exists>ep q. browser_and_listener (fst (startOAuthFlow example_platform example_options Map.empty)) =
      [OpenBrowser ep q, Listen ''3000'', StopListener]"
  using browser_opened_then_listener_bound [of example_platform example_options Map.empty example_url]
  by (simp add: example_platform_def example_options_def example_url_def listen_port_def)


section \<open>Outcomes of an attempt\<close>

lemma flow_rejected:
  assumes "snd (waitForCallback w (redirectUri options) (flow_state w)) = Inl e"
  shows "fst (snd (startOAuthFlow w options c)) = Inl e \<and>
         token_requests (fst (startOAuthFlow w options c)) = []"
proof -
  obtain ev1 cfg c' where d: "discoverOpenIDConfiguration (fetch_config w) (clock_check w)
      (clock_store w) c (domain options) = (ev1, Inr cfg, c')"
    using discover_shape by blast
  show ?thesis
    using assms discover_effects [OF d] wait_effects [of w "redirectUri options" "flow_state w"]
    by (simp add: flow_shape [OF d] Let_def token_requests_append)
qed

lemma wait_first_terminal:
  assumes "parse_url w uri = Some url" and "can_listen w (listen_port url)"
    and "inbound w = pre @ (t, req) # rest" and "list_all (ignored url st) pre"
    and "t < DEADLINE" and "settled (fetch_handler url st req) = Some outcome"
  shows "snd (waitForCallback w uri st) = outcome"
  using assms serve_skip [OF assms(4), of "(t, req) # rest"]
  by (simp add: wait_shape)

lemma handler_resolved:
  assumes "settled (fetch_handler url st req) = Some (Inr c)"
  shows "req_pathname req = url_pathname url \<and> falsy (map_of (searchParams req) ''error'') \<and>
         map_of (searchParams req) ''state'' = Some st \<and>
         map_of (searchParams req) ''code'' = Some c \<and> c \<noteq> []"
  using assms
  by (auto simp: fetch_handler_def Let_def falsy_def template_def split: if_splits option.splits)

lemma serve_resolved:
  assumes "snd (serve url st reqs) = Inr c"
  shows "\<exists>tr \<in> set reqs. fst tr < DEADLINE \<and> settled (fetch_handler url st (snd tr)) = Some (Inr c)"
  using assms
proof (induction reqs)
  case Nil
  then show ?case by simp
next
  case (Cons tr reqs)
  obtain t r where tr: "tr = (t, r)" by (cases tr)
  show ?case
  proof (cases "DEADLINE \<le> t")
    case True
    then show ?thesis using Cons.prems by (simp add: tr)
  next
    case False
    show ?thesis
    proof (cases "settled (fetch_handler url st r)")
      case None
      then have "snd (serve url st reqs) = Inr c"
        using False Cons.prems by (simp add: tr split_beta)
      from Cons.IH [OF this] show ?thesis by auto
    next
      case (Some outcome)
      then show ?thesis
        using False Cons.prems by (auto simp: tr)
    qed
  qed
qed

lemma wait_resolved:
  assumes "snd (waitForCallback w uri st) = Inr c"
  shows "\<exists>url. parse_url w uri = Some url \<and>
           (\<exists>tr \<in> set (inbound w). fst tr < DEADLINE \<and>
              settled (fetch_handler url st (snd tr)) = Some (Inr c))"
  using assms serve_resolved [of _ st "inbound w" c]
  by (auto simp: wait_shape split: option.splits if_splits)

lemma exchange_request:
  "fst (exchangeCodeForToken w options ep code v) =
     [HttpPost ep
        ([(''grant_type'', ''authorization_code''), (''code'', code),
          (''client_id'', clientId options), (''redirect_uri'', redirectUri options)] @
         (if \<not> falsy (clientSecret options)
          then [(''client_secret'', template (clientSecret options))]
          else if v \<noteq> [] then [(''code_verifier'', v)] else []))]"
  by (simp add: exchangeCodeForToken_def Let_def)

lemma randomBytes_length: "length (fst (randomBytes n src)) = n"
  by (simp add: randomBytes_def)

lemma flow_verifier_bytes_length: "length (flow_verifier_bytes w) = 32"
  by (simp add: flow_verifier_bytes_def randomBytes_length)

lemma flow_verifier_nonempty:
  assumes "falsy (clientSecret options)"
  shows "flow_verifier w options \<noteq> []"
proof -
  have "flow_verifier_bytes w \<noteq> []"
    using flow_verifier_bytes_length [of w] by auto
  then have "base64 url_alphabet False (flow_verifier_bytes w) \<noteq> []"
    by (rule base64_nonempty)
  then show ?thesis
    using assms by (simp add: flow_verifier_def base64url_def)
qed

lemma flow_token_requests:
  "token_requests (fst (startOAuthFlow w options c)) =
     (case snd (waitForCallback w (redirectUri options) (flow_state w)) of
        Inl e \<Rightarrow> []
      | Inr code \<Rightarrow>
          [[(''grant_type'', ''authorization_code''), (''code'', code),
            (''client_id'', clientId options), (''redirect_uri'', redirectUri options)] @
           (if falsy (clientSecret options)
            then [(''code_verifier'', flow_verifier w options)]
            else [(''client_secret'', template (clientSecret options))])])"
proof -
  obtain ev1 cfg c' where d: "discoverOpenIDConfiguration (fetch_config w) (clock_check w)
      (clock_store w) c (domain options) = (ev1, Inr cfg, c')"
    using discover_shape by blast
  show ?thesis
    using discover_effects [OF d] wait_effects [of w "redirectUri options" "flow_state w"]
      flow_verifier_nonempty [of options w]
    by (simp add: flow_shape [OF d] Let_def token_requests_append exchange_request
          split: sum.splits)
qed

lemma hex_length: "length (hex bs) = 2 * length bs"
  by (induction bs) (simp_all add: hex_def)

lemma hex_chars: "set (hex bs) \<subseteq> set hex_digits"
proof -
  have "hex_digits ! (unat b div 16) \<in> set hex_digits \<and> hex_digits ! (unat b mod 16) \<in> set hex_digits"
    for b :: byte
  proof -
    have "unat b div 16 < length hex_digits" "unat b mod 16 < length hex_digits"
      using unat_byte_less [of b] by (simp_all add: hex_digits_def)
    then show ?thesis using nth_mem by blast
  qed
  then show ?thesis by (auto simp: hex_def)
qed

lemma flow_state_shape: "length (flow_state w) = 32 \<and> set (flow_state w) \<subseteq> set hex_digits"
  by (simp add: flow_state_def hex_length hex_chars randomBytes_length)

lemma no_hex_window:
  assumes "length st = 32" and "set st \<subseteq> set hex_digits"
    and "msg = pre @ st @ post" and "k < 32" and "length msg \<le> k + 32"
  shows "msg ! k \<in> set hex_digits"
proof -
  have "length pre \<le> k" using assms(1,3,5) by simp
  moreover have "k - length pre < length st" using assms(1,4) by simp
  ultimately have "msg ! k = st ! (k - length pre)"
    using assms(3) by (simp add: nth_append)
  then show ?thesis using assms(2) \<open>k - length pre < length st\<close> nth_mem by fastforce
qed

lemma mismatch_signal_generic:
  assumes "length st = 32" and "set st \<subseteq> set hex_digits"
  shows "''State mismatch - possible CSRF attack'' \<noteq> pre @ st @ post"
    and "''State mismatch. You can close this window.'' \<noteq> pre @ st @ post"
proof -
  show "''State mismatch - possible CSRF attack'' \<noteq> pre @ st @ post"
  proof
    assume e: "''State mismatch - possible CSRF attack'' = pre @ st @ post"
    from no_hex_window [OF assms e, of 5] show False by (simp add: hex_digits_def)
  qed
  show "''State mismatch. You can close this window.'' \<noteq> pre @ st @ post"
  proof
    assume e: "''State mismatch. You can close this window.'' = pre @ st @ post"
    from no_hex_window [OF assms e, of 11] show False by (simp add: hex_digits_def)
  qed
qed

lemma flow_auth_queries:
  "auth_queries (fst (startOAuthFlow w options c)) =
     [[(''response_type'', ''code''), (''client_id'', clientId options),
       (''redirect_uri'', redirectUri options), (''state'', flow_state w),
       (''scope'', ''profile email'')] @
      (if falsy (clientSecret options) \<and> flow_challenge w options \<noteq> []
       then [(''code_challenge'', flow_challenge w options), (''code_challenge_method'', ''S256'')]
       else [])]"
proof -
  obtain ev1 cfg c' where d: "discoverOpenIDConfiguration (fetch_config w) (clock_check w)
      (clock_store w) c (domain options) = (ev1, Inr cfg, c')"
    using discover_shape by blast
  show ?thesis
    using discover_effects [OF d] wait_effects [of w "redirectUri options" "flow_state w"]
    by (simp add: flow_shape [OF d] Let_def auth_queries_append exchange_effects
          buildAuthorizationUrl_def split: sum.splits)
qed

lemma flow_verifier_shape:
  assumes "falsy (clientSecret options)"
  shows "flow_verifier w options = base64url (flow_verifier_bytes w)"
    and "length (flow_verifier w options) = 43"
    and "set (flow_verifier w options) \<subseteq> set url_alphabet"
    and "CHR ''='' \<notin> set (flow_verifier w options)"
proof -
  show v: "flow_verifier w options = base64url (flow_verifier_bytes w)"
    using assms by (simp add: flow_verifier_def)
  show "length (flow_verifier w options) = 43"
    by (simp add: v base64url_def base64_length flow_verifier_bytes_length)
  have "length url_alphabet = 64" by (simp add: url_alphabet_def)
  then show sub: "set (flow_verifier w options) \<subseteq> set url_alphabet"
    unfolding v base64url_def by (rule base64_chars)
  have "CHR ''='' \<notin> set url_alphabet" by (simp add: url_alphabet_def)
  then show "CHR ''='' \<notin> set (flow_verifier w options)" using sub by blast
qed

lemma example_verifier:
  "flow_verifier example_platform example_public_options
     = ''c3qBiI-WnaSrsrnAx87V3OPq8fj_Bg0UGyIpMDc-RUw''"
  by (simp add: flow_verifier_def flow_verifier_bytes_def example_public_options_def falsy_def
        example_platform_def randomBytes_def upt_rec base64url_def sextets3_def sextets2_def
        url_alphabet_def)

lemma example_wait_outcome:
  "snd (waitForCallback example_platform ''http://localhost:3000/callback''
          (flow_state example_platform)) = Inr ''abc''"
  by (simp add: example_state example_wait)

lemma example_public_token_request:
  "token_requests (fst (startOAuthFlow example_platform example_public_options Map.empty)) =
     [[(''grant_type'', ''authorization_code''), (''code'', ''abc''),
       (''client_id'', ''cli_123''), (''redirect_uri'', ''http://localhost:3000/callback''),
       (''code_verifier'', ''c3qBiI-WnaSrsrnAx87V3OPq8fj_Bg0UGyIpMDc-RUw'')]]"
proof -
  have "falsy (clientSecret example_public_options)"
    "clientId example_public_options = ''cli_123''"
    "redirectUri example_public_options = ''http://localhost:3000/callback''"
    by (simp_all add: example_public_options_def falsy_def)
  then show ?thesis
    by (simp add: flow_token_requests example_wait_outcome example_verifier)
qed

lemma example_states:
  "flow_state example_forged_platform = ''030a11181f262d343b424950575e656c''"
  "flow_state example_denied_platform = ''030a11181f262d343b424950575e656c''"
  "flow_state example_late_platform = ''030a11181f262d343b424950575e656c''"
  using example_state
  by (simp_all add: flow_state_def example_forged_platform_def example_denied_platform_def
        example_late_platform_def)

lemma example_favicon_ignored:
  "ignored example_url st (5000, \<lparr> req_pathname = ''/favicon.ico'', searchParams = [] \<rparr>)"
  by (simp add: ignored_def DEADLINE_def fetch_handler_def example_url_def)

section \<open>Token exchange request\<close>

text \<open>
  Claim C4: every form body that a login attempt posts to the token endpoint consists of
  \<^verbatim>\<open>grant_type=authorization_code\<close>, \<^verbatim>\<open>code\<close>, \<^verbatim>\<open>client_id\<close>, \<^verbatim>\<open>redirect_uri\<close> and exactly
  one more entry: \<^verbatim>\<open>client_secret\<close> when the credentials carry a client secret (one that is
  present and not the empty string, which is how the source tests it), and then no
  \<^verbatim>\<open>code_verifier\<close>; \<^verbatim>\<open>code_verifier\<close>, the non-empty verifier of this attempt, when they
  carry none, and then no \<^verbatim>\<open>client_secret\<close>. Whatever verifier it is called with,
  \<^verbatim>\<open>exchangeCodeForToken\<close> never puts both into one body.
\<close>

theorem token_request_body:
  "(\<forall>body \<in> set (token_requests (fst (startOAuthFlow w options c))).
     (\<exists>code. body =
        [(''grant_type'', ''authorization_code''), (''code'', code),
         (''client_id'', clientId options), (''redirect_uri'', redirectUri options)] @
        (if falsy (clientSecret options)
         then [(''code_verifier'', flow_verifier w options)]
         else [(''client_secret'', template (clientSecret options))])) \<and>
     map_of body ''grant_type'' = Some ''authorization_code'' \<and>
     map_of body ''code'' \<noteq> None \<and>
     map_of body ''client_id'' = Some (clientId options) \<and>
     map_of body ''redirect_uri'' = Some (redirectUri options) \<and>
     (\<not> falsy (clientSecret options) \<longrightarrow>
        map_of body ''client_secret'' = clientSecret options \<and>
        map_of body ''code_verifier'' = None) \<and>
     (falsy (clientSecret options) \<longrightarrow>
        map_of body ''code_verifier'' = Some (flow_verifier w options) \<and>
        flow_verifier w options \<noteq> [] \<and>
        map_of body ''client_secret'' = None)) \<and>
   (\<forall>body \<in> set (token_requests (fst (exchangeCodeForToken w options ep code v))).
      map_of body ''client_secret'' = None \<or> map_of body ''code_verifier'' = None)"
proof (intro conjI)
  show "\<forall>body \<in> set (token_requests (fst (exchangeCodeForToken w options ep code v))).
      map_of body ''client_secret'' = None \<or> map_of body ''code_verifier'' = None"
    by (simp add: exchange_request)
  show "\<forall>body \<in> set (token_requests (fst (startOAuthFlow w options c))).
     (\<exists>code. body =
        [(''grant_type'', ''authorization_code''), (''code'', code),
         (''client_id'', clientId options), (''redirect_uri'', redirectUri options)] @
        (if falsy (clientSecret options)
         then [(''code_verifier'', flow_verifier w options)]
         else [(''client_secret'', template (clientSecret options))])) \<and>
     map_of body ''grant_type'' = Some ''authorization_code'' \<and>
     map_of body ''code'' \<noteq> None \<and>
     map_of body ''client_id'' = Some (clientId options) \<and>
     map_of body ''redirect_uri'' = Some (redirectUri options) \<and>
     (\<not> falsy (clientSecret options) \<longrightarrow>
        map_of body ''client_secret'' = clientSecret options \<and>
        map_of body ''code_verifier'' = None) \<and>
     (falsy (clientSecret options) \<longrightarrow>
        map_of body ''code_verifier'' = Some (flow_verifier w options) \<and>
        flow_verifier w options \<noteq> [] \<and>
        map_of body ''client_secret'' = None)"
    using flow_verifier_nonempty [of options w]
    by (auto simp: flow_token_requests falsy_def template_def split: sum.splits option.splits)
qed

theorem token_request_body_witness:
  "token_requests (fst (startOAuthFlow example_platform example_options Map.empty)) =
     [[(''grant_type'', ''authorization_code''), (''code'', ''abc''),
       (''client_id'', ''cli_123''), (''redirect_uri'', ''http://localhost:3000/callback''),
       (''client_secret'', ''s3cret'')]] \<and>
   \<not> falsy (clientSecret example_options) \<and>
   map_of (hd (token_requests (fst (startOAuthFlow example_platform example_options Map.empty))))
     ''client_secret'' = Some ''s3cret'' \<and>
   map_of (hd (token_requests (fst (startOAuthFlow example_platform example_options Map.empty))))
     ''code_verifier'' = None \<and>
   token_requests (fst (startOAuthFlow example_platform example_public_options Map.empty)) =
     [[(''grant_type'', ''authorization_code''), (''code'', ''abc''),
       (''client_id'', ''cli_123''), (''redirect_uri'', ''http://localhost:3000/callback''),
       (''code_verifier'', ''c3qBiI-WnaSrsrnAx87V3OPq8fj_Bg0UGyIpMDc-RUw'')]] \<and>
   falsy (clientSecret example_public_options) \<and>
   map_of (hd (token_requests (fst (startOAuthFlow example_platform example_public_options
                                      Map.empty))))
     ''client_secret'' = None"
proof -
  have tr: "token_requests (fst (startOAuthFlow example_platform example_options Map.empty)) =
     [[(''grant_type'', ''authorization_code''), (''code'', ''abc''),
       (''client_id'', ''cli_123''), (''redirect_uri'', ''http://localhost:3000/callback''),
       (''client_secret'', ''s3cret'')]]"
    by (simp add: example_trace)
  have nf: "\<not> falsy (clientSecret example_options)"
    by (simp add: example_options_def falsy_def)
  have f: "falsy (clientSecret example_public_options)"
    by (simp add: example_public_options_def falsy_def)
  from token_request_body [of example_platform example_options Map.empty]
       token_request_body [of example_platform example_public_options Map.empty]
       tr nf f example_public_token_request
  show ?thesis by simp
qed

section \<open>State validation\<close>

text \<open>
  Claim C5: a callback request on the redirect path with no (or an empty) error parameter
  whose state parameter is absent or differs from the issued state makes the receiver
  stop the listener and reject with the fixed message \<^verbatim>\<open>State mismatch - possible CSRF attack\<close>,
  answering the browser with a fixed body; neither text contains the issued state. When
  this is the first request to settle the attempt, the attempt fails with that message
  and nothing is posted to the token endpoint. In general a code reaches the token
  endpoint only if it arrived in a request carrying the issued state.
\<close>

theorem state_mismatch_rejected:
  assumes "req_pathname req = url_pathname url"
    and "falsy (map_of (searchParams req) ''error'')"
    and "map_of (searchParams req) ''state'' \<noteq> Some expectedState"
  shows "fetch_handler url expectedState req =
           [StopListener, Reject (Error ''State mismatch - possible CSRF attack''),
            Respond 400 ''State mismatch. You can close this window.''] \<and>
         (list_all (ignored url expectedState) pre \<and> t < DEADLINE \<longrightarrow>
            snd (serve url expectedState (pre @ (t, req) # rest))
              = Inl (Error ''State mismatch - possible CSRF attack'')) \<and>
         (parse_url w (redirectUri options) = Some url \<and> can_listen w (listen_port url) \<and>
          expectedState = flow_state w \<and> inbound w = pre @ (t, req) # rest \<and>
          list_all (ignored url expectedState) pre \<and> t < DEADLINE \<longrightarrow>
            fst (snd (startOAuthFlow w options c))
              = Inl (Error ''State mismatch - possible CSRF attack'') \<and>
            token_requests (fst (startOAuthFlow w options c)) = []) \<and>
         (\<forall>a b. ''State mismatch - possible CSRF attack'' \<noteq> a @ flow_state w @ b \<and>
                ''State mismatch. You can close this window.'' \<noteq> a @ flow_state w @ b) \<and>
         (\<forall>body \<in> set (token_requests (fst (startOAuthFlow w options c))).
            \<exists>tr \<in> set (inbound w).
              map_of (searchParams (snd tr)) ''state'' = Some (flow_state w) \<and>
              map_of (searchParams (snd tr)) ''code'' = map_of body ''code'')"
proof -
  have h: "fetch_handler url expectedState req =
           [StopListener, Reject (Error ''State mismatch - possible CSRF attack''),
            Respond 400 ''State mismatch. You can close this window.'']"
    using assms by (rule handler_mismatch)
  then have s: "settled (fetch_handler url expectedState req)
                  = Some (Inl (Error ''State mismatch - possible CSRF attack''))"
    by simp
  have "snd (serve url expectedState (pre @ (t, req) # rest))
          = Inl (Error ''State mismatch - possible CSRF attack'')"
    if "list_all (ignored url expectedState) pre" "t < DEADLINE"
    using serve_skip [OF that(1), of "(t, req) # rest"] that(2) s by simp
  moreover have "fst (snd (startOAuthFlow w options c))
              = Inl (Error ''State mismatch - possible CSRF attack'') \<and>
            token_requests (fst (startOAuthFlow w options c)) = []"
    if "parse_url w (redirectUri options) = Some url" "can_listen w (listen_port url)"
      "expectedState = flow_state w" "inbound w = pre @ (t, req) # rest"
      "list_all (ignored url expectedState) pre" "t < DEADLINE"
    using wait_first_terminal [OF that(1,2,4) that(5) [unfolded that(3)] that(6) s [unfolded that(3)]]
    by (rule flow_rejected)
  moreover have "''State mismatch - possible CSRF attack'' \<noteq> a @ flow_state w @ b \<and>
                ''State mismatch. You can close this window.'' \<noteq> a @ flow_state w @ b" for a b
    using flow_state_shape [of w] mismatch_signal_generic [of "flow_state w" a b] by blast
  moreover have "\<exists>tr \<in> set (inbound w).
              map_of (searchParams (snd tr)) ''state'' = Some (flow_state w) \<and>
              map_of (searchParams (snd tr)) ''code'' = map_of body ''code''"
    if b: "body \<in> set (token_requests (fst (startOAuthFlow w options c)))" for body
  proof (cases "snd (waitForCallback w (redirectUri options) (flow_state w))")
    case (Inl e)
    then show ?thesis using b by (simp add: flow_token_requests)
  next
    case (Inr code)
    from wait_resolved [OF Inr] obtain url' tr where tr: "tr \<in> set (inbound w)"
      "settled (fetch_handler url' (flow_state w) (snd tr)) = Some (Inr code)"
      by blast
    from handler_resolved [OF tr(2)] have
      "map_of (searchParams (snd tr)) ''state'' = Some (flow_state w)"
      "map_of (searchParams (snd tr)) ''code'' = Some code"
      by simp_all
    moreover have "map_of body ''code'' = Some code"
      using b Inr by (simp add: flow_token_requests)
    ultimately show ?thesis using tr(1) by auto
  qed
  ultimately show ?thesis using h by blast
qed

theorem state_mismatch_rejected_witness:
  "req_pathname example_forged = url_pathname example_url \<and>
   falsy (map_of (searchParams example_forged) ''error'') \<and>
   map_of (searchParams example_forged) ''state'' \<noteq> Some (flow_state example_forged_platform) \<and>
   fetch_handler example_url (flow_state example_forged_platform) example_forged =
     [StopListener, Reject (Error ''State mismatch - possible CSRF attack''),
      Respond 400 ''State mismatch. You can close this window.''] \<and>
   fst (snd (startOAuthFlow example_forged_platform example_options Map.empty))
     = Inl (Error ''State mismatch - possible CSRF attack'') \<and>
   token_requests (fst (startOAuthFlow example_forged_platform example_options Map.empty)) = []"
proof -
  have a: "req_pathname example_forged = url_pathname example_url"
    by (simp add: example_forged_def example_url_def)
  have b: "falsy (map_of (searchParams example_forged) ''error'')"
    by (simp add: example_forged_def falsy_def)
  have c: "map_of (searchParams example_forged) ''state'' \<noteq> Some (flow_state example_forged_platform)"
    by (simp add: example_forged_def example_states)
  have p: "parse_url example_forged_platform (redirectUri example_options) = Some example_url"
    by (simp add: example_forged_platform_def example_platform_def example_options_def)
  have l: "can_listen example_forged_platform (listen_port example_url)"
    by (simp add: example_forged_platform_def example_platform_def)
  have i: "inbound example_forged_platform =
             [(5000, \<lparr> req_pathname = ''/favicon.ico'', searchParams = [] \<rparr>)] @
             (9000, example_forged) # [(12000, example_callback)]"
    by (simp add: example_forged_platform_def example_platform_def)
  have g: "list_all (ignored example_url (flow_state example_forged_platform))
             [(5000, \<lparr> req_pathname = ''/favicon.ico'', searchParams = [] \<rparr>)]"
    by (simp add: example_favicon_ignored)
  have t: "(9000::nat) < DEADLINE" by (simp add: DEADLINE_def)
  from state_mismatch_rejected [OF a b c] p l i g t a b c
  show ?thesis by blast
qed

section \<open>Provider-reported errors\<close>

text \<open>
  Claim C6, as stated: every callback request on the redirect path that carries an error
  parameter is rejected, whatever its state and code. The source tests \<^verbatim>\<open>if (error)\<close>, which
  an empty value does not pass: the request \<^verbatim>\<open>/callback?error=&state=S&code=abc\<close> with the
  issued state \<open>S\<close> carries an error parameter and yet resolves the attempt with the code.
\<close>

theorem empty_error_counterexample:
  "map_of (searchParams example_empty_error) ''error'' = Some [] \<and>
   req_pathname example_empty_error = url_pathname example_url \<and>
   fetch_handler example_url ''030a11181f262d343b424950575e656c'' example_empty_error =
     [StopListener, Resolve ''abc'',
      Respond 200 ''Authorization successful! You can close this window.''] \<and>
   serve example_url ''030a11181f262d343b424950575e656c'' [(9000, example_empty_error)] =
     ([StopListener, Resolve ''abc'',
       Respond 200 ''Authorization successful! You can close this window.''], Inr ''abc'')"
  by (simp add: example_empty_error_def example_url_def fetch_handler_def falsy_def
        template_def DEADLINE_def)

text \<open>
  Claim C6, amended: every callback request on the redirect path that carries a non-empty
  error parameter makes the receiver stop the listener and reject with
  \<^verbatim>\<open>Authorization error: \<close> followed by the error string, whatever the state and code
  parameters are; when it is the first request to settle the attempt, the attempt fails
  with that message and nothing is posted to the token endpoint.
\<close>

theorem provider_error_rejected:
  assumes "req_pathname req = url_pathname url"
    and "map_of (searchParams req) ''error'' = Some e" and "e \<noteq> []"
  shows "fetch_handler url expectedState req =
           [StopListener, Reject (Error (''Authorization error: '' @ e)),
            Respond 400 ''Authorization failed. You can close this window.''] \<and>
         (list_all (ignored url expectedState) pre \<and> t < DEADLINE \<longrightarrow>
            snd (serve url expectedState (pre @ (t, req) # rest))
              = Inl (Error (''Authorization error: '' @ e))) \<and>
         (parse_url w (redirectUri options) = Some url \<and> can_listen w (listen_port url) \<and>
          expectedState = flow_state w \<and> inbound w = pre @ (t, req) # rest \<and>
          list_all (ignored url expectedState) pre \<and> t < DEADLINE \<longrightarrow>
            fst (snd (startOAuthFlow w options c)) = Inl (Error (''Authorization error: '' @ e)) \<and>
            token_requests (fst (startOAuthFlow w options c)) = [])"
proof -
  have h: "fetch_handler url expectedState req =
           [StopListener, Reject (Error (''Authorization error: '' @ e)),
            Respond 400 ''Authorization failed. You can close this window.'']"
    using assms by (rule handler_error)
  then have s: "settled (fetch_handler url expectedState req)
                  = Some (Inl (Error (''Authorization error: '' @ e)))"
    by simp
  have "snd (serve url expectedState (pre @ (t, req) # rest))
          = Inl (Error (''Authorization error: '' @ e))"
    if "list_all (ignored url expectedState) pre" "t < DEADLINE"
    using serve_skip [OF that(1), of "(t, req) # rest"] that(2) s by simp
  moreover have "fst (snd (startOAuthFlow w options c)) = Inl (Error (''Authorization error: '' @ e)) \<and>
            token_requests (fst (startOAuthFlow w options c)) = []"
    if "parse_url w (redirectUri options) = Some url" "can_listen w (listen_port url)"
      "expectedState = flow_state w" "inbound w = pre @ (t, req) # rest"
      "list_all (ignored url expectedState) pre" "t < DEADLINE"
    using wait_first_terminal [OF that(1,2,4) that(5) [unfolded that(3)] that(6) s [unfolded that(3)]]
    by (rule flow_rejected)
  ultimately show ?thesis using h by blast
qed

theorem provider_error_rejected_witness:
  "req_pathname example_denied = url_pathname example_url \<and>
   map_of (searchParams example_denied) ''error'' = Some ''access_denied'' \<and>
   fetch_handler example_url (flow_state example_denied_platform) example_denied =
     [StopListener, Reject (Error ''Authorization error: access_denied''),
      Respond 400 ''Authorization failed. You can close this window.''] \<and>
   fst (snd (startOAuthFlow example_denied_platform example_options Map.empty))
     = Inl (Error ''Authorization error: access_denied'') \<and>
   token_requests (fst (startOAuthFlow example_denied_platform example_options Map.empty)) = []"
proof -
  have a: "req_pathname example_denied = url_pathname example_url"
    by (simp add: example_denied_def example_url_def)
  have b: "map_of (searchParams example_denied) ''error'' = Some ''access_denied''"
    by (simp add: example_denied_def)
  have c: "''access_denied'' \<noteq> []" by simp
  have p: "parse_url example_denied_platform (redirectUri example_options) = Some example_url"
    by (simp add: example_denied_platform_def example_platform_def example_options_def)
  have l: "can_listen example_denied_platform (listen_port example_url)"
    by (simp add: example_denied_platform_def example_platform_def)
  have i: "inbound example_denied_platform =
             [(5000, \<lparr> req_pathname = ''/favicon.ico'', searchParams = [] \<rparr>)] @
             (9000, example_denied) # []"
    by (simp add: example_denied_platform_def example_platform_def)
  have g: "list_all (ignored example_url (flow_state example_denied_platform))
             [(5000, \<lparr> req_pathname = ''/favicon.ico'', searchParams = [] \<rparr>)]"
    by (simp add: example_favicon_ignored)
  have t: "(9000::nat) < DEADLINE" by (simp add: DEADLINE_def)
  from provider_error_rejected [OF a b c, of "flow_state example_denied_platform"] p l i g t a b
  have "fetch_handler example_url (flow_state example_denied_platform) example_denied =
     [StopListener, Reject (Error (''Authorization error: '' @ ''access_denied'')),
      Respond 400 ''Authorization failed. You can close this window.''] \<and>
   fst (snd (startOAuthFlow example_denied_platform example_options Map.empty))
     = Inl (Error (''Authorization error: '' @ ''access_denied'')) \<and>
   token_requests (fst (startOAuthFlow example_denied_platform example_options Map.empty)) = []"
    by blast
  with a b show ?thesis by simp
qed

section \<open>Deadline and teardown\<close>

text \<open>
  Claim C8: the deadline is five minutes. If no request that arrives before it settles the
  attempt (by success, state mismatch or provider error), the receiver rejects with
  \<^verbatim>\<open>Authorization timeout\<close> and the attempt fails without a token request. On every path
  of the receiver and of the whole attempt, each settlement of the promise happens
  while the listener is stopped, the outcome returned is that settlement, and no
  listener is bound at the end.
\<close>

theorem receiver_deadline_and_teardown:
  "DEADLINE = 5 * 60 * 1000 \<and>
   (parse_url w (redirectUri options) = Some url \<and> can_listen w (listen_port url) \<and>
    (\<forall>tr \<in> set (inbound w).
       fst tr < DEADLINE \<longrightarrow> settled (fetch_handler url (flow_state w) (snd tr)) = None)
    \<longrightarrow> snd (waitForCallback w (redirectUri options) (flow_state w))
          = Inl (Error ''Authorization timeout'') \<and>
        fst (snd (startOAuthFlow w options c)) = Inl (Error ''Authorization timeout'') \<and>
        token_requests (fst (startOAuthFlow w options c)) = []) \<and>
   (\<forall>uri st. settles_unbound False (fst (waitForCallback w uri st)) \<and>
             \<not> listening False (fst (waitForCallback w uri st)) \<and>
             (fst (waitForCallback w uri st) \<noteq> [] \<longrightarrow>
                settled (fst (waitForCallback w uri st)) = Some (snd (waitForCallback w uri st)))) \<and>
   settles_unbound False (fst (startOAuthFlow w options c)) \<and>
   \<not> listening False (fst (startOAuthFlow w options c))"
proof -
  have "snd (waitForCallback w (redirectUri options) (flow_state w))
          = Inl (Error ''Authorization timeout'') \<and>
        fst (snd (startOAuthFlow w options c)) = Inl (Error ''Authorization timeout'') \<and>
        token_requests (fst (startOAuthFlow w options c)) = []"
    if p: "parse_url w (redirectUri options) = Some url" and l: "can_listen w (listen_port url)"
      and q: "\<forall>tr \<in> set (inbound w).
       fst tr < DEADLINE \<longrightarrow> settled (fetch_handler url (flow_state w) (snd tr)) = None"
  proof -
    have "snd (serve url (flow_state w) (inbound w)) = Inl (Error ''Authorization timeout'')"
      by (rule serve_timeout) (use q in auto)
    then have "snd (waitForCallback w (redirectUri options) (flow_state w))
          = Inl (Error ''Authorization timeout'')"
      using p l by (simp add: wait_shape)
    then show ?thesis using flow_rejected by blast
  qed
  moreover have "settled (fst (waitForCallback w uri st)) = Some (snd (waitForCallback w uri st))"
    if "fst (waitForCallback w uri st) \<noteq> []" for uri st
    using that serve_effects [of True _ st "inbound w"]
    by (auto simp: wait_shape split: option.splits if_splits)
  ultimately show ?thesis
    using wait_effects [of w] flow_effects [of w options c]
    by (simp add: DEADLINE_def)
qed

theorem receiver_deadline_and_teardown_witness:
  "parse_url example_late_platform (redirectUri example_options) = Some example_url \<and>
   can_listen example_late_platform (listen_port example_url) \<and>
   list_all
     (\<lambda>tr. fst tr < DEADLINE \<longrightarrow>
        settled (fetch_handler example_url (flow_state example_late_platform) (snd tr)) = None)
     (inbound example_late_platform) \<and>
   fst (snd (startOAuthFlow example_late_platform example_options Map.empty))
     = Inl (Error ''Authorization timeout'') \<and>
   \<not> listening False (fst (startOAuthFlow example_late_platform example_options Map.empty))"
proof -
  have a: "parse_url example_late_platform (redirectUri example_options) = Some example_url"
    by (simp add: example_late_platform_def example_platform_def example_options_def)
  have b: "can_listen example_late_platform (listen_port example_url)"
    by (simp add: example_late_platform_def example_platform_def)
  have c: "\<forall>tr \<in> set (inbound example_late_platform).
       fst tr < DEADLINE \<longrightarrow>
       settled (fetch_handler example_url (flow_state example_late_platform) (snd tr)) = None"
    by (simp add: example_late_platform_def example_platform_def DEADLINE_def fetch_handler_def
          example_url_def)
  from receiver_deadline_and_teardown
         [of example_late_platform example_options example_url Map.empty] a b c
  have r: "fst (snd (startOAuthFlow example_late_platform example_options Map.empty))
             = Inl (Error ''Authorization timeout'') \<and>
           \<not> listening False (fst (startOAuthFlow example_late_platform example_options Map.empty))"
    by blast
  from c have c': "list_all
     (\<lambda>tr. fst tr < DEADLINE \<longrightarrow>
        settled (fetch_handler example_url (flow_state example_late_platform) (snd tr)) = None)
     (inbound example_late_platform)"
    unfolding list_all_iff .
  from a b c' r show ?thesis by blast
qed

section \<open>PKCE verifier and challenge\<close>

text \<open>
  Claim C7: for every verifier string the challenge computed by the source's
  \<^verbatim>\<open>btoa\<close>-and-\<^verbatim>\<open>replace\<close> chain is the unpadded URL-safe Base64 of the digest of the
  verifier's bytes, whatever the digest function. In an attempt without a client secret
  the verifier is the unpadded URL-safe Base64 of 32 bytes drawn from the random source
  (43 characters of the URL-safe alphabet), it is the \<^verbatim>\<open>code_verifier\<close> of the token
  request, and the \<^verbatim>\<open>code_challenge\<close> of the authorization URL is the challenge of exactly
  that string, with method \<^verbatim>\<open>S256\<close>. That the platform's \<^verbatim>\<open>randomBytes\<close> is
  cryptographically secure is outside the model.
\<close>

theorem pkce_verifier_and_challenge:
  "generateCodeChallenge sha256 v = base64url (sha256 (encode v)) \<and>
   length (flow_verifier_bytes w) = 32 \<and>
   flow_verifier_bytes w = map (\<lambda>i. entropy w (i + 16)) [0..<32] \<and>
   (falsy (clientSecret options) \<longrightarrow>
      flow_verifier w options = base64url (flow_verifier_bytes w) \<and>
      length (flow_verifier w options) = 43 \<and>
      set (flow_verifier w options) \<subseteq> set url_alphabet \<and>
      CHR ''='' \<notin> set (flow_verifier w options) \<and>
      (\<forall>body \<in> set (token_requests (fst (startOAuthFlow w options c))).
         map_of body ''code_verifier'' = Some (flow_verifier w options))) \<and>
   (falsy (clientSecret options) \<and> (\<forall>bs. digest_sha256 w bs \<noteq> []) \<longrightarrow>
      auth_queries (fst (startOAuthFlow w options c)) \<noteq> [] \<and>
      (\<forall>q \<in> set (auth_queries (fst (startOAuthFlow w options c))).
         map_of q ''code_challenge''
           = Some (base64url (digest_sha256 w (encode (flow_verifier w options)))) \<and>
         map_of q ''code_challenge_method'' = Some ''S256''))"
proof -
  have bytes: "flow_verifier_bytes w = map (\<lambda>i. entropy w (i + 16)) [0..<32]"
    by (simp add: flow_verifier_bytes_def randomBytes_def)
  have tok: "\<forall>body \<in> set (token_requests (fst (startOAuthFlow w options c))).
         map_of body ''code_verifier'' = Some (flow_verifier w options)"
    if "falsy (clientSecret options)"
    using that by (auto simp: flow_token_requests split: sum.splits)
  have auth: "auth_queries (fst (startOAuthFlow w options c)) \<noteq> [] \<and>
      (\<forall>q \<in> set (auth_queries (fst (startOAuthFlow w options c))).
         map_of q ''code_challenge''
           = Some (base64url (digest_sha256 w (encode (flow_verifier w options)))) \<and>
         map_of q ''code_challenge_method'' = Some ''S256'')"
    if f: "falsy (clientSecret options)" and d: "\<forall>bs. digest_sha256 w bs \<noteq> []"
  proof -
    have ch: "flow_challenge w options
                = base64url (digest_sha256 w (encode (flow_verifier w options)))"
      using f by (simp add: flow_challenge_def challenge_refines)
    have "digest_sha256 w (encode (flow_verifier w options)) \<noteq> []" using d by simp
    then have "flow_challenge w options \<noteq> []"
      unfolding ch base64url_def by (rule base64_nonempty)
    then show ?thesis using f ch by (simp add: flow_auth_queries)
  qed
  show ?thesis
    using challenge_refines [of sha256 v] flow_verifier_bytes_length [of w] bytes
      flow_verifier_shape [of options w] tok auth
    by blast
qed

theorem pkce_verifier_and_challenge_witness:
  "falsy (clientSecret example_public_options) \<and>
   flow_verifier example_platform example_public_options
     = ''c3qBiI-WnaSrsrnAx87V3OPq8fj_Bg0UGyIpMDc-RUw'' \<and>
   (\<forall>bs. digest_sha256 example_platform bs \<noteq> []) \<and>
   length (flow_verifier example_platform example_public_options) = 43 \<and>
   auth_queries (fst (startOAuthFlow example_platform example_public_options Map.empty)) \<noteq> [] \<and>
   list_all
     (\<lambda>q. map_of q ''code_challenge''
            = Some (base64url (digest_sha256 example_platform
                      (encode (flow_verifier example_platform example_public_options)))))
     (auth_queries (fst (startOAuthFlow example_platform example_public_options Map.empty)))"
proof -
  have a: "falsy (clientSecret example_public_options)"
    by (simp add: example_public_options_def falsy_def)
  have b: "\<forall>bs. digest_sha256 example_platform bs \<noteq> []"
    by (simp add: example_platform_def)
  from pkce_verifier_and_challenge
         [of "digest_sha256 example_platform" "[]" example_platform example_public_options Map.empty]
       a b
  have r: "length (flow_verifier example_platform example_public_options) = 43 \<and>
    auth_queries (fst (startOAuthFlow example_platform example_public_options Map.empty)) \<noteq> [] \<and>
    (\<forall>q \<in> set (auth_queries (fst (startOAuthFlow example_platform example_public_options Map.empty))).
      map_of q ''code_challenge''
        = Some (base64url (digest_sha256 example_platform
                  (encode (flow_verifier example_platform example_public_options)))))"
    by blast
  then have "list_all
     (\<lambda>q. map_of q ''code_challenge''
            = Some (base64url (digest_sha256 example_platform
                      (encode (flow_verifier example_platform example_public_options)))))
     (auth_queries (fst (startOAuthFlow example_platform example_public_options Map.empty)))"
    unfolding list_all_iff by blast
  with a b r example_verifier show ?thesis by blast
qed

end
